theory Spec2Isabelle
  imports Complex_Main
begin

section \<open>Documents of the store\<close>

text \<open>
  The backend keeps its data in MongoDB collections and every route handler is a
  sequence of reads and writes on them.  A collection is modelled as a map from the
  document id to the document, or as a list of documents where the handlers count or
  filter the collection.  Object ids are natural numbers, dates are milliseconds, and the
  quantities and stock counters (JavaScript numbers that the handlers only add, subtract
  and compare) are integers.  The enumerated fields are datatypes, so a stored status is
  always one of the schema's values.  Schema validation and the unique indexes are
  modelled where a handler can run into them: when an order is created and when a
  review is saved with values taken from the request.
\<close>

type_synonym oid = nat

datatype order_status = Created | Paid | Packed | Shipped | Delivered | Completed | Cancelled

fun order_status_name :: "order_status \<Rightarrow> string" where
  "order_status_name Created = ''created''"
| "order_status_name Paid = ''paid''"
| "order_status_name Packed = ''packed''"
| "order_status_name Shipped = ''shipped''"
| "order_status_name Delivered = ''delivered''"
| "order_status_name Completed = ''completed''"
| "order_status_name Cancelled = ''cancelled''"

datatype payment_status = Pending | Payment_completed | Payment_failed | Refunded

record order_item =
  i_product :: oid
  i_name :: string
  i_quantity :: int
  i_price :: int

record payment =
  razorpayOrderId :: "string option"
  razorpayPaymentId :: "string option"
  razorpaySignature :: "string option"
  pay_method :: "string option"
  pay_status :: payment_status
  paidAt :: "nat option"

record order_delivery =
  od_partner :: "oid option"
  od_estimatedDate :: "nat option"
  od_actualDate :: "nat option"
  od_notes :: "string option"

record order_history =
  oh_status :: string
  oh_timestamp :: nat
  oh_note :: "string option"
  oh_updatedBy :: "oid option"

record address =
  street :: "string option"
  city :: "string option"
  state :: "string option"
  pincode :: "string option"

record order =
  o_id :: oid
  o_user :: oid
  orderNumber :: "string option"
  o_items :: "order_item list"
  shippingAddress :: address
  o_status :: order_status
  o_payment :: payment
  o_delivery :: order_delivery
  totalAmount :: int
  o_statusHistory :: "order_history list"
  cancellationReason :: "string option"

text \<open>A JavaScript number that may be \<open>NaN\<close> (the result of \<open>0 / 0\<close>).\<close>

datatype jsnum = Num rat | NaN

record product =
  p_name :: string
  stock :: int
  reservedStock :: int
  ratings_average :: jsnum
  ratings_count :: nat

record cart_item =
  ci_product :: oid
  ci_quantity :: int
  ci_price :: int

record cart =
  c_items :: "cart_item list"
  c_totalAmount :: int

datatype delivery_status = Assigned | Picked | In_transit | Out_for_delivery | D_delivered | Failed

record delivery_history =
  dh_status :: string
  dh_timestamp :: nat
  dh_location :: "string option"
  dh_note :: "string option"

record delivery =
  d_order :: oid
  d_partner :: oid
  d_status :: delivery_status
  actualDeliveryDate :: "nat option"
  customerSignature :: "string option"
  proofOfDelivery :: "string option"
  d_statusHistory :: "delivery_history list"

datatype review_type = Product_review | Delivery_review

record review =
  r_id :: oid
  r_type :: review_type
  r_product :: "oid option"
  r_deliveryPartner :: "oid option"
  r_order :: "oid option"
  r_user :: oid
  r_rating :: rat
  r_title :: "string option"
  r_comment :: string
  isVerifiedPurchase :: bool
  isApproved :: bool

record user_doc =
  u_rating_average :: jsnum
  u_rating_count :: nat

record db =
  products :: "oid \<rightharpoonup> product"
  carts :: "oid \<rightharpoonup> cart"
  orders :: "order list"
  deliveries :: "oid \<rightharpoonup> delivery"
  reviews :: "review list"
  users :: "oid \<rightharpoonup> user_doc"

text \<open>
  What a handler reads from outside the store: the clock, the id given to a created
  document, the Razorpay secrets, the HMAC-SHA256 hex digest and the Razorpay payment
  lookup (\<open>None\<close> when the SDK call throws).
\<close>

record env =
  now :: nat
  new_oid :: oid
  key_secret :: string
  webhook_secret :: string
  hmac_sha256_hex :: "string \<Rightarrow> string \<Rightarrow> string"
  payments_fetch :: "string \<Rightarrow> string option"

datatype role = Customer | Admin | Inventory_manager | Delivery_partner

record req_user =
  ru_id :: oid
  ru_role :: role

record response =
  code :: nat
  success :: bool
  message :: string

definition respond :: "nat \<Rightarrow> bool \<Rightarrow> string \<Rightarrow> response" where
  "respond c ok m = \<lparr>code = c, success = ok, message = m\<rparr>"

section \<open>Order numbers\<close>

text \<open>Decimal rendering of a number, \<open>String.prototype.padStart\<close>, and JavaScript truthiness
  of an optional string (\<open>undefined\<close> and the empty string are falsy).\<close>

definition digit_char :: "nat \<Rightarrow> char" where
  "digit_char d = ''0123456789'' ! d"

fun string_of_nat :: "nat \<Rightarrow> string" where
  "string_of_nat n =
     (if n < 10 then [digit_char n] else string_of_nat (n div 10) @ [digit_char (n mod 10)])"

declare string_of_nat.simps [simp del]

definition string_of_int :: "int \<Rightarrow> string" where
  "string_of_int i = (if i < 0 then CHR ''-'' # string_of_nat (nat (- i)) else string_of_nat (nat i))"

definition padStart :: "nat \<Rightarrow> char \<Rightarrow> string \<Rightarrow> string" where
  "padStart n c s = replicate (n - length s) c @ s"

definition truthy :: "string option \<Rightarrow> bool" where
  "truthy v = (case v of None \<Rightarrow> False | Some s \<Rightarrow> s \<noteq> [])"

definition or_default :: "string option \<Rightarrow> string \<Rightarrow> string" where
  "or_default v d = (case v of None \<Rightarrow> d | Some s \<Rightarrow> if s = [] then d else s)"

text \<open>\<open>orderSchema.pre('save')\<close>: the number is generated only when the order has none;
  \<open>count\<close> is \<open>countDocuments()\<close> of the order collection.\<close>

definition gen_orderNumber :: "nat \<Rightarrow> nat \<Rightarrow> string" where
  "gen_orderNumber ms count =
     ''SON-'' @ string_of_nat ms @ ''-'' @ padStart 4 CHR ''0'' (string_of_nat (count + 1))"

definition pre_save :: "env \<Rightarrow> nat \<Rightarrow> order \<Rightarrow> order" where
  "pre_save e count ord =
     (if \<not> truthy (orderNumber ord)
      then ord\<lparr>orderNumber := Some (gen_orderNumber (now e) count)\<rparr>
      else ord)"

text \<open>
  \<open>order.save()\<close> of a document read from the collection: the hook runs and the
  document replaces the stored one with its id.  The handlers assign only valid values
  to it and leave its order number alone, so neither validation nor the unique index
  can refuse the write.
\<close>

definition order_save :: "env \<Rightarrow> order \<Rightarrow> order list \<Rightarrow> order list" where
  "order_save e ord os =
     (let ord' = pre_save e (length os) ord
      in map (\<lambda>x. if o_id x = o_id ord then ord' else x) os)"

text \<open>
  \<open>Order.create\<close>: Mongoose validates the new document against \<open>orderSchema\<close> (the
  four address fields are required, an item's quantity is at least 1), runs the hook and
  inserts.  The insert is refused when the id or the order number is already in the
  collection (\<open>orderNumber\<close> is declared \<open>unique: true\<close>).  Either failure is thrown
  to the caller; of the error's message the leading words are kept.
\<close>

datatype save_error = ValidationError | DuplicateKey

fun save_error_message :: "save_error \<Rightarrow> string" where
  "save_error_message ValidationError = ''Order validation failed''"
| "save_error_message DuplicateKey = ''E11000 duplicate key error''"

definition validate_order :: "order \<Rightarrow> bool" where
  "validate_order ord \<longleftrightarrow>
     truthy (street (shippingAddress ord)) \<and> truthy (city (shippingAddress ord)) \<and>
     truthy (state (shippingAddress ord)) \<and> truthy (pincode (shippingAddress ord)) \<and>
     list_all (\<lambda>it. 1 \<le> i_quantity it) (o_items ord)"

definition Order_create :: "env \<Rightarrow> order \<Rightarrow> order list \<Rightarrow> save_error + order list" where
  "Order_create e ord os =
     (if \<not> validate_order ord then Inl ValidationError
      else let ord' = pre_save e (length os) ord
           in if o_id ord' \<in> set (map o_id os) \<or> orderNumber ord' \<in> set (map orderNumber os)
              then Inl DuplicateKey
              else Inr (os @ [ord']))"

definition findById :: "oid \<Rightarrow> order list \<Rightarrow> order option" where
  "findById i os = find (\<lambda>x. o_id x = i) os"

section \<open>Order routes\<close>

definition validStatuses :: "(string \<times> order_status) list" where
  "validStatuses = map (\<lambda>st. (order_status_name st, st))
     [Created, Paid, Packed, Shipped, Delivered, Completed, Cancelled]"

text \<open>\<open>PUT /api/orders/:id/status\<close> (admin only).\<close>

definition put_order_status ::
  "env \<Rightarrow> req_user \<Rightarrow> oid \<Rightarrow> string \<Rightarrow> string option \<Rightarrow> db \<Rightarrow> response \<times> db" where
  "put_order_status e u oid status_str note s =
     (case map_of validStatuses status_str of
        None \<Rightarrow> (respond 400 False ''Invalid status'', s)
      | Some st \<Rightarrow>
         (case findById oid (orders s) of
            None \<Rightarrow> (respond 404 False ''Order not found'', s)
          | Some ord \<Rightarrow>
             (let ord' = ord\<lparr>o_status := st,
                    o_statusHistory := o_statusHistory ord @
                      [\<lparr>oh_status = status_str, oh_timestamp = now e, oh_note = note,
                        oh_updatedBy = Some (ru_id u)\<rparr>]\<rparr>
              in (respond 200 True [], s\<lparr>orders := order_save e ord' (orders s)\<rparr>))))"

text \<open>\<open>Product.findByIdAndUpdate(id, {$inc: {stock: ds, reservedStock: dr}})\<close>: an
  update of the stored counters with no validation (update validators are off by
  default); a missing product is left missing.\<close>

definition findByIdAndUpdate_inc ::
  "oid \<Rightarrow> int \<Rightarrow> int \<Rightarrow> (oid \<rightharpoonup> product) \<Rightarrow> (oid \<rightharpoonup> product)" where
  "findByIdAndUpdate_inc i ds dr ps =
     (case ps i of
        None \<Rightarrow> ps
      | Some p \<Rightarrow> ps(i \<mapsto> p\<lparr>stock := stock p + ds, reservedStock := reservedStock p + dr\<rparr>))"

text \<open>\<open>POST /api/orders\<close>.  The request's \<open>shippingAddress\<close> is an object or is
  missing.  The cart is read with its products populated; a cart line whose product no
  longer exists makes the validation loop throw, which the handler's \<open>catch\<close> turns
  into a 500.  The stock is reserved before the order is created: when
  \<open>Order.create\<close> throws, the answer is 500, the reservations stay and the cart is
  not cleared.\<close>

fun validate_stock :: "(oid \<rightharpoonup> product) \<Rightarrow> cart_item list \<Rightarrow> response option" where
  "validate_stock ps [] = None"
| "validate_stock ps (item # rest) =
     (case ps (ci_product item) of
        None \<Rightarrow> Some (respond 500 False
                 (''Cannot read properties of null (reading '' @ [CHR 0x27] @ ''stock'' @
                  [CHR 0x27] @ '')''))
      | Some p \<Rightarrow>
         (let availableStock = stock p - reservedStock p
          in if ci_quantity item > availableStock
             then Some (respond 400 False
               (''Insufficient stock for '' @ p_name p @ ''. Only '' @
                string_of_int availableStock @ '' available.''))
             else validate_stock ps rest))"

definition reserve_stock :: "cart_item list \<Rightarrow> (oid \<rightharpoonup> product) \<Rightarrow> (oid \<rightharpoonup> product)" where
  "reserve_stock its ps =
     fold (\<lambda>item. findByIdAndUpdate_inc (ci_product item) 0 (ci_quantity item)) its ps"

definition populated_name :: "(oid \<rightharpoonup> product) \<Rightarrow> oid \<Rightarrow> string" where
  "populated_name ps i = (case ps i of None \<Rightarrow> [] | Some p \<Rightarrow> p_name p)"

text \<open>The document handed to \<open>Order.create\<close>, with the schema defaults filled in.\<close>

definition new_order :: "env \<Rightarrow> req_user \<Rightarrow> address \<Rightarrow> cart \<Rightarrow> (oid \<rightharpoonup> product) \<Rightarrow> order" where
  "new_order e u addr c ps =
     \<lparr>o_id = new_oid e, o_user = ru_id u, orderNumber = None,
      o_items = map (\<lambda>item.
          \<lparr>i_product = ci_product item, i_name = populated_name ps (ci_product item),
           i_quantity = ci_quantity item, i_price = ci_price item\<rparr>) (c_items c),
      shippingAddress = addr,
      o_status = Created,
      o_payment = \<lparr>razorpayOrderId = None, razorpayPaymentId = None,
        razorpaySignature = None, pay_method = None, pay_status = Pending, paidAt = None\<rparr>,
      o_delivery = \<lparr>od_partner = None, od_estimatedDate = None, od_actualDate = None,
        od_notes = None\<rparr>,
      totalAmount = c_totalAmount c,
      o_statusHistory = [\<lparr>oh_status = ''created'', oh_timestamp = now e,
        oh_note = Some ''Order placed'', oh_updatedBy = None\<rparr>],
      cancellationReason = None\<rparr>"

definition post_orders :: "env \<Rightarrow> req_user \<Rightarrow> address option \<Rightarrow> db \<Rightarrow> response \<times> db" where
  "post_orders e u addr s =
     (case addr of
        None \<Rightarrow> (respond 400 False ''Shipping address is required'', s)
      | Some shipping \<Rightarrow>
        (case carts s (ru_id u) of
           None \<Rightarrow> (respond 400 False ''Cart is empty'', s)
         | Some c \<Rightarrow>
            if c_items c = [] then (respond 400 False ''Cart is empty'', s)
            else case validate_stock (products s) (c_items c) of
              Some r \<Rightarrow> (r, s)
            | None \<Rightarrow>
               (let ps' = reserve_stock (c_items c) (products s);
                    ord = new_order e u shipping c (products s)
                in case Order_create e ord (orders s) of
                     Inl err \<Rightarrow>
                      (respond 500 False (save_error_message err), s\<lparr>products := ps'\<rparr>)
                   | Inr os' \<Rightarrow>
                      (respond 201 True [],
                       s\<lparr>products := ps', orders := os',
                         carts := (carts s)(ru_id u \<mapsto> c\<lparr>c_items := []\<rparr>)\<rparr>))))"

text \<open>\<open>POST /api/orders/:id/cancel\<close>.\<close>

definition nonCancellable :: "order_status list" where
  "nonCancellable = [Shipped, Delivered, Completed, Cancelled]"

definition release_stock :: "order_item list \<Rightarrow> (oid \<rightharpoonup> product) \<Rightarrow> (oid \<rightharpoonup> product)" where
  "release_stock its ps =
     fold (\<lambda>item. findByIdAndUpdate_inc (i_product item) 0 (- i_quantity item)) its ps"

definition post_order_cancel ::
  "env \<Rightarrow> req_user \<Rightarrow> oid \<Rightarrow> string option \<Rightarrow> db \<Rightarrow> response \<times> db" where
  "post_order_cancel e u oid reason s =
     (case findById oid (orders s) of
        None \<Rightarrow> (respond 404 False ''Order not found'', s)
      | Some ord \<Rightarrow>
         if ru_role u \<noteq> Admin \<and> o_user ord \<noteq> ru_id u
         then (respond 403 False ''Not authorized'', s)
         else if o_status ord \<in> set nonCancellable
         then (respond 400 False
                 (''Cannot cancel order in '' @ order_status_name (o_status ord) @ '' status''), s)
         else
           (let ps' = release_stock (o_items ord) (products s);
                ord' = ord\<lparr>o_status := Cancelled, cancellationReason := reason,
                    o_statusHistory := o_statusHistory ord @
                      [\<lparr>oh_status = ''cancelled'', oh_timestamp = now e,
                        oh_note = Some (or_default reason ''Order cancelled''),
                        oh_updatedBy = Some (ru_id u)\<rparr>]\<rparr>
            in (respond 200 True [],
                s\<lparr>products := ps', orders := order_save e ord' (orders s)\<rparr>)))"

section \<open>Payment routes\<close>

record verify_req =
  razorpay_order_id :: string
  razorpay_payment_id :: string
  razorpay_signature :: string
  v_orderId :: oid

definition commit_stock :: "order_item list \<Rightarrow> (oid \<rightharpoonup> product) \<Rightarrow> (oid \<rightharpoonup> product)" where
  "commit_stock its ps =
     fold (\<lambda>item. findByIdAndUpdate_inc (i_product item) (- i_quantity item) (- i_quantity item))
       its ps"

text \<open>\<open>POST /api/payments/verify\<close>.\<close>

definition post_payments_verify :: "env \<Rightarrow> req_user \<Rightarrow> verify_req \<Rightarrow> db \<Rightarrow> response \<times> db" where
  "post_payments_verify e u r s =
     (let body = razorpay_order_id r @ ''|'' @ razorpay_payment_id r;
          expectedSignature = hmac_sha256_hex e (key_secret e) body
      in if expectedSignature \<noteq> razorpay_signature r
         then (respond 400 False ''Invalid payment signature'', s)
         else case findById (v_orderId r) (orders s) of
           None \<Rightarrow> (respond 404 False ''Order not found'', s)
         | Some ord \<Rightarrow>
            (case payments_fetch e (razorpay_payment_id r) of
               None \<Rightarrow> (respond 500 False ''payment fetch failed'', s)
             | Some m \<Rightarrow>
                (let ord' = ord\<lparr>
                       o_payment := \<lparr>razorpayOrderId = Some (razorpay_order_id r),
                         razorpayPaymentId = Some (razorpay_payment_id r),
                         razorpaySignature = Some (razorpay_signature r),
                         pay_method = Some m, pay_status = Payment_completed,
                         paidAt = Some (now e)\<rparr>,
                       o_status := Paid,
                       o_statusHistory := o_statusHistory ord @
                         [\<lparr>oh_status = ''paid'', oh_timestamp = now e,
                           oh_note = Some (''Payment completed via '' @ m),
                           oh_updatedBy = Some (ru_id u)\<rparr>]\<rparr>;
                     ps' = commit_stock (o_items ord) (products s)
                 in (respond 200 True ''Payment verified successfully'',
                     s\<lparr>products := ps', orders := order_save e ord' (orders s)\<rparr>))))"

text \<open>\<open>POST /api/payments/webhook\<close>.  The event carries the fields of the payload
  entity that the handler reads; the note of a refund entry is the interpolated text.\<close>

datatype webhook_event =
    Ev_payment_captured string string string
  | Ev_payment_failed string string
  | Ev_refund_created string string
  | Ev_other

record webhook_req =
  x_razorpay_signature :: string
  body_json :: string
  event :: webhook_event

definition findOne_razorpayOrderId :: "string \<Rightarrow> order list \<Rightarrow> order option" where
  "findOne_razorpayOrderId k os = find (\<lambda>x. razorpayOrderId (o_payment x) = Some k) os"

definition findOne_razorpayPaymentId :: "string \<Rightarrow> order list \<Rightarrow> order option" where
  "findOne_razorpayPaymentId k os = find (\<lambda>x. razorpayPaymentId (o_payment x) = Some k) os"

definition post_payments_webhook :: "env \<Rightarrow> webhook_req \<Rightarrow> db \<Rightarrow> response \<times> db" where
  "post_payments_webhook e r s =
     (let digest = hmac_sha256_hex e (webhook_secret e) (body_json r)
      in if digest \<noteq> x_razorpay_signature r
         then (respond 400 False ''Invalid webhook signature'', s)
         else
          (respond 200 True [],
           (case event r of
              Ev_payment_captured order_id pid m \<Rightarrow>
               (case findOne_razorpayOrderId order_id (orders s) of
                  None \<Rightarrow> s
                | Some ord \<Rightarrow>
                   if pay_status (o_payment ord) \<noteq> Payment_completed
                   then s\<lparr>orders := order_save e
                     (ord\<lparr>o_payment := (o_payment ord)\<lparr>pay_status := Payment_completed,
                             razorpayPaymentId := Some pid, pay_method := Some m,
                             paidAt := Some (now e)\<rparr>,
                          o_status := Paid\<rparr>) (orders s)\<rparr>
                   else s)
            | Ev_payment_failed order_id error_description \<Rightarrow>
               (case findOne_razorpayOrderId order_id (orders s) of
                  None \<Rightarrow> s
                | Some ord \<Rightarrow>
                   s\<lparr>orders := order_save e
                     (ord\<lparr>o_payment := (o_payment ord)\<lparr>pay_status := Payment_failed\<rparr>,
                          o_statusHistory := o_statusHistory ord @
                            [\<lparr>oh_status = order_status_name (o_status ord),
                              oh_timestamp = now e,
                              oh_note = Some (''Payment failed: '' @ error_description),
                              oh_updatedBy = None\<rparr>]\<rparr>) (orders s)\<rparr>)
            | Ev_refund_created payment_id note \<Rightarrow>
               (case findOne_razorpayPaymentId payment_id (orders s) of
                  None \<Rightarrow> s
                | Some ord \<Rightarrow>
                   s\<lparr>orders := order_save e
                     (ord\<lparr>o_payment := (o_payment ord)\<lparr>pay_status := Refunded\<rparr>,
                          o_statusHistory := o_statusHistory ord @
                            [\<lparr>oh_status = ''refunded'', oh_timestamp = now e,
                              oh_note = Some note, oh_updatedBy = None\<rparr>]\<rparr>) (orders s)\<rparr>)
            | Ev_other \<Rightarrow> s)))"

section \<open>Delivery routes\<close>

definition validDeliveryStatuses :: "(string \<times> delivery_status) list" where
  "validDeliveryStatuses =
     [(''assigned'', Assigned), (''picked'', Picked), (''in_transit'', In_transit),
      (''out_for_delivery'', Out_for_delivery), (''delivered'', D_delivered),
      (''failed'', Failed)]"

text \<open>\<open>PUT /api/delivery/:id/status\<close>.\<close>

definition put_delivery_status ::
  "env \<Rightarrow> req_user \<Rightarrow> oid \<Rightarrow> string \<Rightarrow> string option \<Rightarrow> string option \<Rightarrow> db
     \<Rightarrow> response \<times> db" where
  "put_delivery_status e u did status_str note location s =
     (case map_of validDeliveryStatuses status_str of
        None \<Rightarrow> (respond 400 False ''Invalid status'', s)
      | Some st \<Rightarrow>
         (case deliveries s did of
            None \<Rightarrow> (respond 404 False ''Delivery not found'', s)
          | Some d \<Rightarrow>
             if ru_role u = Delivery_partner \<and> d_partner d \<noteq> ru_id u
             then (respond 403 False ''Not authorized'', s)
             else
              (let d1 = d\<lparr>d_status := st,
                     d_statusHistory := d_statusHistory d @
                       [\<lparr>dh_status = status_str, dh_timestamp = now e,
                         dh_location = location, dh_note = note\<rparr>]\<rparr>
               in case findById (d_order d) (orders s) of
                    None \<Rightarrow> (respond 200 True [], s\<lparr>deliveries := (deliveries s)(did \<mapsto> d1)\<rparr>)
                  | Some ord \<Rightarrow>
                     (let ost = (if st = Picked then Packed
                                 else if st = In_transit \<or> st = Out_for_delivery then Shipped
                                 else if st = D_delivered then Delivered
                                 else o_status ord);
                          d2 = (if st = D_delivered
                                then d1\<lparr>actualDeliveryDate := Some (now e)\<rparr> else d1);
                          ord' = ord\<lparr>o_status := ost,
                            o_statusHistory := o_statusHistory ord @
                              [\<lparr>oh_status = order_status_name ost, oh_timestamp = now e,
                                oh_note = Some (''Delivery status: '' @ status_str),
                                oh_updatedBy = Some (ru_id u)\<rparr>]\<rparr>
                      in (respond 200 True [],
                          s\<lparr>orders := order_save e ord' (orders s),
                            deliveries := (deliveries s)(did \<mapsto> d2)\<rparr>)))))"

text \<open>\<open>POST /api/delivery/:id/confirm\<close>.\<close>

definition post_delivery_confirm ::
  "env \<Rightarrow> req_user \<Rightarrow> oid \<Rightarrow> string option \<Rightarrow> string option \<Rightarrow> string option \<Rightarrow> db
     \<Rightarrow> response \<times> db" where
  "post_delivery_confirm e u did signature proofImage note s =
     (case deliveries s did of
        None \<Rightarrow> (respond 404 False ''Delivery not found'', s)
      | Some d \<Rightarrow>
         if ru_role u = Delivery_partner \<and> d_partner d \<noteq> ru_id u
         then (respond 403 False ''Not authorized'', s)
         else
          (let d' = d\<lparr>d_status := D_delivered, actualDeliveryDate := Some (now e),
                 customerSignature := signature, proofOfDelivery := proofImage,
                 d_statusHistory := d_statusHistory d @
                   [\<lparr>dh_status = ''delivered'', dh_timestamp = now e, dh_location = None,
                     dh_note = Some (or_default note ''Delivery confirmed'')\<rparr>]\<rparr>;
               s1 = s\<lparr>deliveries := (deliveries s)(did \<mapsto> d')\<rparr>
           in case findById (d_order d) (orders s1) of
                None \<Rightarrow> (respond 200 True ''Delivery confirmed successfully'', s1)
              | Some ord \<Rightarrow>
                 (let ord' = ord\<lparr>o_status := Completed,
                        o_delivery := (o_delivery ord)\<lparr>od_actualDate := Some (now e)\<rparr>,
                        o_statusHistory := o_statusHistory ord @
                          [\<lparr>oh_status = ''completed'', oh_timestamp = now e,
                            oh_note = Some ''Order delivered and confirmed'',
                            oh_updatedBy = Some (ru_id u)\<rparr>]\<rparr>
                  in (respond 200 True ''Delivery confirmed successfully'',
                      s1\<lparr>orders := order_save e ord' (orders s1)\<rparr>))))"

section \<open>Review routes\<close>

subsection \<open>JavaScript numbers\<close>

text \<open>
  A rating is an IEEE double.  A \<open>rat\<close> stands for the exact value of a finite double,
  and every arithmetic operation of the handlers is the exact operation followed by
  rounding to the nearest double, ties to the even significand (\<open>fl\<close>): the value is
  scaled into \<open>[2^52, 2^53)\<close>, rounded to an integer and scaled back.  Overflow and
  subnormal numbers, far from the magnitudes of ratings, are not modelled.
\<close>

function scale_up :: "rat \<Rightarrow> rat \<Rightarrow> rat \<times> rat" where
  "scale_up x q =
     (if 0 < x \<and> x < 4503599627370496 then scale_up (2 * x) (q / 2) else (x, q))"
  by pat_completeness auto
termination
proof (relation "measure (\<lambda>(x, q). nat \<lceil>4503599627370496 / x\<rceil>)")
  show "wf (measure (\<lambda>(x, q). nat \<lceil>4503599627370496 / x\<rceil>))"
    by simp
next
  fix x q :: rat
  assume a: "0 < x \<and> x < 4503599627370496"
  define y where "y = 4503599627370496 / x"
  have y: "1 < y"
    using a by (simp add: y_def)
  have half: "4503599627370496 / (2 * x) = y / 2"
    by (simp add: y_def)
  have two: "2 \<le> \<lceil>y\<rceil>"
    using y by (simp add: le_ceiling_iff)
  moreover have "y \<le> of_int \<lceil>y\<rceil>"
    by simp
  ultimately have "y / 2 \<le> of_int \<lceil>y\<rceil> - 1"
    by linarith
  then have "\<lceil>y / 2\<rceil> < \<lceil>y\<rceil>"
    by (simp add: ceiling_less_iff)
  moreover have "0 < \<lceil>y\<rceil>"
    using two by simp
  ultimately show "((2 * x, q / 2), (x, q)) \<in> measure (\<lambda>(x, q). nat \<lceil>4503599627370496 / x\<rceil>)"
    by (simp add: half y_def [symmetric])
qed

function scale_down :: "rat \<Rightarrow> rat \<Rightarrow> rat \<times> rat" where
  "scale_down x q =
     (if 9007199254740992 \<le> x then scale_down (x / 2) (q * 2) else (x, q))"
  by pat_completeness auto
termination
proof (relation "measure (\<lambda>(x, q). nat \<lfloor>x\<rfloor>)")
  show "wf (measure (\<lambda>(x, q). nat \<lfloor>x\<rfloor>))"
    by simp
next
  fix x q :: rat
  assume a: "9007199254740992 \<le> x"
  have "x - 1 < of_int \<lfloor>x\<rfloor>"
    by linarith
  with a have "x / 2 < of_int \<lfloor>x\<rfloor>"
    by linarith
  then have "\<lfloor>x / 2\<rfloor> < \<lfloor>x\<rfloor>"
    by (simp add: floor_less_iff)
  moreover have "0 < \<lfloor>x\<rfloor>"
    using a by (simp add: less_floor_iff)
  ultimately show "((x / 2, q * 2), (x, q)) \<in> measure (\<lambda>(x, q). nat \<lfloor>x\<rfloor>)"
    by simp
qed

declare scale_up.simps [simp del] scale_down.simps [simp del]

definition round_half_even :: "rat \<Rightarrow> int" where
  "round_half_even x =
     (let f = \<lfloor>x\<rfloor>; d = x - of_int f
      in if d < 1 / 2 then f else if 1 / 2 < d then f + 1 else if even f then f else f + 1)"

definition fl :: "rat \<Rightarrow> rat" where
  "fl x =
     (if x = 0 then 0
      else (let (m1, q1) = scale_up \<bar>x\<bar> 1; (m, q) = scale_down m1 q1
            in sgn x * of_int (round_half_even m) * q))"

text \<open>
  \<open>reviews.reduce((sum, r) => sum + r.rating, 0) / reviews.length\<close>: over an empty list
  this is \<open>0 / 0\<close>, which is \<open>NaN\<close>.  \<open>Math.round(x * 10) / 10\<close>: the product and the
  quotient are rounded to doubles, \<open>Math.round\<close> itself is exact and rounds a half up.
\<close>

definition mean_rating :: "review list \<Rightarrow> jsnum" where
  "mean_rating rs =
     (if length rs = 0 then NaN
      else Num (fl (foldl (\<lambda>sum r. fl (sum + r_rating r)) 0 rs / of_nat (length rs))))"

definition mean_rating_guarded :: "review list \<Rightarrow> jsnum" where
  "mean_rating_guarded rs = (if length rs > 0 then mean_rating rs else Num 0)"

fun round1 :: "jsnum \<Rightarrow> jsnum" where
  "round1 NaN = NaN"
| "round1 (Num x) = Num (fl (of_int \<lfloor>fl (x * 10) + 1 / 2\<rfloor> / 10))"

subsection \<open>Queries and updates\<close>

definition approved_product_reviews :: "oid option \<Rightarrow> review list \<Rightarrow> review list" where
  "approved_product_reviews pid rs =
     filter (\<lambda>r. r_product r = pid \<and> isApproved r \<and> r_type r = Product_review) rs"

definition approved_delivery_reviews :: "oid option \<Rightarrow> review list \<Rightarrow> review list" where
  "approved_delivery_reviews pid rs =
     filter (\<lambda>r. r_deliveryPartner r = pid \<and> isApproved r \<and> r_type r = Delivery_review) rs"

text \<open>
  The two writes of the rating fields, \<open>findByIdAndUpdate\<close> with the average alone or
  with the average and the count.  Mongoose casts the values of an update to the schema
  type before it sends the update; \<open>NaN\<close> does not cast to a Number, and the call
  throws (\<open>None\<close>).  A missing target document is left missing.
\<close>

definition cast_error_message :: "string \<Rightarrow> string" where
  "cast_error_message path =
     ''Cast to Number failed for value '' @ [CHR 0x22] @ ''NaN'' @ [CHR 0x22] @
     '' (type number) at path '' @ [CHR 0x22] @ path @ [CHR 0x22]"

definition set_product_average ::
  "oid option \<Rightarrow> jsnum \<Rightarrow> (oid \<rightharpoonup> product) \<Rightarrow> (oid \<rightharpoonup> product) option" where
  "set_product_average pid a ps =
     (if a = NaN then None
      else Some (case pid of None \<Rightarrow> ps
        | Some i \<Rightarrow> (case ps i of None \<Rightarrow> ps | Some p \<Rightarrow> ps(i \<mapsto> p\<lparr>ratings_average := a\<rparr>))))"

definition set_product_ratings ::
  "oid option \<Rightarrow> jsnum \<Rightarrow> nat \<Rightarrow> (oid \<rightharpoonup> product) \<Rightarrow> (oid \<rightharpoonup> product) option" where
  "set_product_ratings pid a n ps =
     (if a = NaN then None
      else Some (case pid of None \<Rightarrow> ps
        | Some i \<Rightarrow> (case ps i of None \<Rightarrow> ps
            | Some p \<Rightarrow> ps(i \<mapsto> p\<lparr>ratings_average := a, ratings_count := n\<rparr>))))"

definition set_user_average ::
  "oid option \<Rightarrow> jsnum \<Rightarrow> (oid \<rightharpoonup> user_doc) \<Rightarrow> (oid \<rightharpoonup> user_doc) option" where
  "set_user_average pid a us =
     (if a = NaN then None
      else Some (case pid of None \<Rightarrow> us
        | Some i \<Rightarrow> (case us i of None \<Rightarrow> us | Some p \<Rightarrow> us(i \<mapsto> p\<lparr>u_rating_average := a\<rparr>))))"

definition set_user_rating ::
  "oid option \<Rightarrow> jsnum \<Rightarrow> nat \<Rightarrow> (oid \<rightharpoonup> user_doc) \<Rightarrow> (oid \<rightharpoonup> user_doc) option" where
  "set_user_rating pid a n us =
     (if a = NaN then None
      else Some (case pid of None \<Rightarrow> us
        | Some i \<Rightarrow> (case us i of None \<Rightarrow> us
            | Some p \<Rightarrow> us(i \<mapsto> p\<lparr>u_rating_average := a, u_rating_count := n\<rparr>))))"

definition find_review :: "oid \<Rightarrow> review list \<Rightarrow> review option" where
  "find_review i rs = find (\<lambda>r. r_id r = i) rs"

text \<open>
  \<open>review.save()\<close> validates the document against \<open>reviewSchema\<close>: the rating lies
  between 1 and 5, the comment is not empty, and the reference that the review type
  requires is there (of the error's message the leading words are kept).  The schema
  trims the title when it is assigned
  (\<open>String.prototype.trim\<close>; of the white space it removes, the ASCII characters are
  modelled).
\<close>

definition is_space :: "char \<Rightarrow> bool" where
  "is_space ch \<longleftrightarrow> ch \<in> set [CHR 0x20, CHR 0x09, CHR 0x0A, CHR 0x0B, CHR 0x0C, CHR 0x0D]"

definition trim :: "string \<Rightarrow> string" where
  "trim str = rev (dropWhile is_space (rev (dropWhile is_space str)))"

definition validate_review :: "review \<Rightarrow> bool" where
  "validate_review rv \<longleftrightarrow>
     1 \<le> r_rating rv \<and> r_rating rv \<le> 5 \<and> r_comment rv \<noteq> [] \<and>
     (case r_type rv of
        Product_review \<Rightarrow> r_product rv \<noteq> None
      | Delivery_review \<Rightarrow> r_deliveryPartner rv \<noteq> None)"

text \<open>
  \<open>PUT /api/reviews/:id\<close>.  The request's rating is a JSON number, read as a double;
  \<open>rating || review.rating\<close> keeps the old rating when the request has none or has 0.
  A review that fails validation is not saved and the answer is 500.  After the save the
  average is recomputed without a guard for the empty list and written alone; when no
  approved review is left the value is \<open>NaN\<close>, the update throws, and the answer is
  500 with the review saved and the rating summary as it was.
\<close>

definition put_review ::
  "req_user \<Rightarrow> oid \<Rightarrow> rat option \<Rightarrow> string option \<Rightarrow> string option \<Rightarrow> db \<Rightarrow> response \<times> db" where
  "put_review u rid rating title comment s =
     (case find_review rid (reviews s) of
        None \<Rightarrow> (respond 404 False ''Review not found'', s)
      | Some rv \<Rightarrow>
         if r_user rv \<noteq> ru_id u then (respond 403 False ''Not authorized'', s)
         else
          (let rv' = rv\<lparr>
                 r_rating := (case rating of None \<Rightarrow> r_rating rv
                              | Some x \<Rightarrow> if fl x = 0 then r_rating rv else fl x),
                 r_title := map_option trim (if truthy title then title else r_title rv),
                 r_comment := or_default comment (r_comment rv)\<rparr>
           in if \<not> validate_review rv' then (respond 500 False ''Review validation failed'', s)
              else
               (let rs' = map (\<lambda>r. if r_id r = rid then rv' else r) (reviews s);
                    s1 = s\<lparr>reviews := rs'\<rparr>
                in case r_type rv' of
                     Product_review \<Rightarrow>
                      (let found = approved_product_reviews (r_product rv') rs';
                           avgRating = mean_rating found
                       in case set_product_average (r_product rv') (round1 avgRating)
                                 (products s1) of
                            None \<Rightarrow>
                             (respond 500 False (cast_error_message ''ratings.average''), s1)
                          | Some ps' \<Rightarrow> (respond 200 True [], s1\<lparr>products := ps'\<rparr>))
                   | Delivery_review \<Rightarrow>
                      (let found = approved_delivery_reviews (r_deliveryPartner rv') rs';
                           avgRating = mean_rating found
                       in case set_user_average (r_deliveryPartner rv') (round1 avgRating)
                                 (users s1) of
                            None \<Rightarrow>
                             (respond 500 False (cast_error_message ''rating.average''), s1)
                          | Some us' \<Rightarrow> (respond 200 True [], s1\<lparr>users := us'\<rparr>)))))"

text \<open>\<open>DELETE /api/reviews/:id\<close>.\<close>

definition delete_review :: "req_user \<Rightarrow> oid \<Rightarrow> db \<Rightarrow> response \<times> db" where
  "delete_review u rid s =
     (case find_review rid (reviews s) of
        None \<Rightarrow> (respond 404 False ''Review not found'', s)
      | Some rv \<Rightarrow>
         if r_user rv \<noteq> ru_id u \<and> ru_role u \<noteq> Admin
         then (respond 403 False ''Not authorized'', s)
         else
          (let rs' = filter (\<lambda>r. r_id r \<noteq> rid) (reviews s);
               s1 = s\<lparr>reviews := rs'\<rparr>
           in case r_type rv of
                Product_review \<Rightarrow>
                 (let found = approved_product_reviews (r_product rv) rs';
                      avgRating = mean_rating_guarded found
                  in case set_product_ratings (r_product rv) (round1 avgRating)
                            (length found) (products s1) of
                       None \<Rightarrow> (respond 500 False (cast_error_message ''ratings.average''), s1)
                     | Some ps' \<Rightarrow> (respond 200 True ''Review deleted'', s1\<lparr>products := ps'\<rparr>))
              | Delivery_review \<Rightarrow>
                 (let found = approved_delivery_reviews (r_deliveryPartner rv) rs';
                      avgRating = mean_rating_guarded found
                  in case set_user_rating (r_deliveryPartner rv) (round1 avgRating)
                            (length found) (users s1) of
                       None \<Rightarrow> (respond 500 False (cast_error_message ''rating.average''), s1)
                     | Some us' \<Rightarrow> (respond 200 True ''Review deleted'', s1\<lparr>users := us'\<rparr>))))"

text \<open>\<open>PUT /api/reviews/:id/moderate\<close> (admin only).\<close>

definition moderate_review :: "oid \<Rightarrow> bool \<Rightarrow> db \<Rightarrow> response \<times> db" where
  "moderate_review rid approved s =
     (case find_review rid (reviews s) of
        None \<Rightarrow> (respond 404 False ''Review not found'', s)
      | Some rv0 \<Rightarrow>
          (let rv = rv0\<lparr>isApproved := approved\<rparr>;
               rs' = map (\<lambda>r. if r_id r = rid then rv else r) (reviews s);
               s1 = s\<lparr>reviews := rs'\<rparr>
           in case r_type rv of
                Product_review \<Rightarrow>
                 (let found = approved_product_reviews (r_product rv) rs';
                      avgRating = mean_rating_guarded found
                  in case set_product_ratings (r_product rv) (round1 avgRating)
                            (length found) (products s1) of
                       None \<Rightarrow> (respond 500 False (cast_error_message ''ratings.average''), s1)
                     | Some ps' \<Rightarrow> (respond 200 True [], s1\<lparr>products := ps'\<rparr>))
              | Delivery_review \<Rightarrow>
                 (let found = approved_delivery_reviews (r_deliveryPartner rv) rs';
                      avgRating = mean_rating_guarded found
                  in case set_user_rating (r_deliveryPartner rv) (round1 avgRating)
                            (length found) (users s1) of
                       None \<Rightarrow> (respond 500 False (cast_error_message ''rating.average''), s1)
                     | Some us' \<Rightarrow> (respond 200 True [], s1\<lparr>users := us'\<rparr>))))"

section \<open>Quantities per product, and a sample store\<close>

text \<open>The units that the lines of an order hold of one product.\<close>
definition qty_for :: "oid \<Rightarrow> order_item list \<Rightarrow> int" where
  "qty_for pid its = sum_list (map i_quantity (filter (\<lambda>it. i_product it = pid) its))"

definition ex_env :: env where
  "ex_env = \<lparr>now = 1700000000000, new_oid = 7, key_secret = ''key'', webhook_secret = ''hook'',
     hmac_sha256_hex = (\<lambda>k b. k @ b), payments_fetch = (\<lambda>_. Some ''upi'')\<rparr>"

definition ex_product :: product where
  "ex_product = \<lparr>p_name = ''bike'', stock = 5, reservedStock = 2,
     ratings_average = Num 0, ratings_count = 0\<rparr>"

definition ex_address :: address where
  "ex_address = \<lparr>street = Some ''12 Hill Road'', city = Some ''Pune'',
     state = Some ''Maharashtra'', pincode = Some ''411001''\<rparr>"

definition ex_order :: order where
  "ex_order = \<lparr>o_id = 7, o_user = 3, orderNumber = Some ''SON-1700000000000-0001'',
     o_items = [\<lparr>i_product = 1, i_name = ''bike'', i_quantity = 2, i_price = 100\<rparr>],
     shippingAddress = ex_address, o_status = Created,
     o_payment = \<lparr>razorpayOrderId = Some ''rzp_1'', razorpayPaymentId = None,
       razorpaySignature = None, pay_method = None, pay_status = Pending, paidAt = None\<rparr>,
     o_delivery = \<lparr>od_partner = Some 4, od_estimatedDate = None, od_actualDate = None,
       od_notes = None\<rparr>,
     totalAmount = 200,
     o_statusHistory = [\<lparr>oh_status = ''created'', oh_timestamp = 1700000000000,
       oh_note = Some ''Order placed'', oh_updatedBy = None\<rparr>],
     cancellationReason = None\<rparr>"

definition ex_delivery :: delivery where
  "ex_delivery = \<lparr>d_order = 7, d_partner = 4, d_status = Assigned, actualDeliveryDate = None,
     customerSignature = None, proofOfDelivery = None,
     d_statusHistory = [\<lparr>dh_status = ''assigned'', dh_timestamp = 1700000000000,
       dh_location = None, dh_note = Some ''Delivery assigned''\<rparr>]\<rparr>"

definition ex_db :: db where
  "ex_db = \<lparr>products = [1 \<mapsto> ex_product], carts = Map.empty, orders = [ex_order],
     deliveries = [9 \<mapsto> ex_delivery], reviews = [], users = Map.empty\<rparr>"

definition ex_admin :: req_user where "ex_admin = \<lparr>ru_id = 1, ru_role = Admin\<rparr>"
definition ex_customer :: req_user where "ex_customer = \<lparr>ru_id = 3, ru_role = Customer\<rparr>"
definition ex_partner :: req_user where "ex_partner = \<lparr>ru_id = 4, ru_role = Delivery_partner\<rparr>"

definition ex_webhook_req :: webhook_req where
  "ex_webhook_req = \<lparr>x_razorpay_signature = ''hook{}'', body_json = ''{}'',
     event = Ev_payment_captured ''rzp_1'' ''pay_1'' ''upi''\<rparr>"

definition ex_verify_req :: verify_req where
  "ex_verify_req = \<lparr>razorpay_order_id = ''rzp_1'', razorpay_payment_id = ''pay_1'',
     razorpay_signature = ''keyrzp_1|pay_1'', v_orderId = 7\<rparr>"

text \<open>The message of the 400 answer of \<open>POST /api/orders\<close> for a product short of stock.\<close>

definition insufficient_message :: "product \<Rightarrow> string" where
  "insufficient_message p =
     ''Insufficient stock for '' @ p_name p @ ''. Only '' @
     string_of_int (stock p - reservedStock p) @ '' available.''"

definition ex_cart_db :: db where
  "ex_cart_db = \<lparr>products = [1 \<mapsto> ex_product,
       2 \<mapsto> \<lparr>p_name = ''helmet'', stock = 1, reservedStock = 0,
              ratings_average = Num 0, ratings_count = 0\<rparr>],
     carts = [3 \<mapsto> \<lparr>c_items = [\<lparr>ci_product = 1, ci_quantity = 1, ci_price = 100\<rparr>,
                               \<lparr>ci_product = 2, ci_quantity = 3, ci_price = 20\<rparr>],
                    c_totalAmount = 160\<rparr>],
     orders = [], deliveries = Map.empty, reviews = [], users = Map.empty\<rparr>"

text \<open>The invariant of the stock counters of a product, and a shop followed from its
  first checkout: one product with five units, one customer with two of them in the cart.\<close>

definition stock_invariant :: "product \<Rightarrow> bool" where
  "stock_invariant p \<longleftrightarrow> 0 \<le> reservedStock p \<and> reservedStock p \<le> stock p"

definition ex_shop :: db where
  "ex_shop = \<lparr>products = [1 \<mapsto> \<lparr>p_name = ''bike'', stock = 5, reservedStock = 0,
       ratings_average = Num 0, ratings_count = 0\<rparr>],
     carts = [3 \<mapsto> \<lparr>c_items = [\<lparr>ci_product = 1, ci_quantity = 2, ci_price = 100\<rparr>],
                    c_totalAmount = 200\<rparr>],
     orders = [], deliveries = Map.empty, reviews = [], users = Map.empty\<rparr>"

definition ex_shop_ordered :: db where
  "ex_shop_ordered = snd (post_orders ex_env ex_customer (Some ex_address) ex_shop)"

definition ex_shop_paid :: db where
  "ex_shop_paid = snd (post_payments_verify ex_env ex_customer ex_verify_req ex_shop_ordered)"

definition ex_shop_cancelled :: db where
  "ex_shop_cancelled =
     snd (post_order_cancel ex_env ex_customer 7 (Some ''changed mind'') ex_shop_paid)"

definition ex_db_verified :: db where
  "ex_db_verified = snd (post_payments_verify ex_env ex_customer ex_verify_req ex_db)"

definition ex_db_verified_twice :: db where
  "ex_db_verified_twice =
     snd (post_payments_verify ex_env ex_customer ex_verify_req ex_db_verified)"

text \<open>Reading a decimal string back.\<close>

definition digit_val :: "char \<Rightarrow> nat" where
  "digit_val ch = of_char ch - 48"

definition nat_of_string :: "string \<Rightarrow> nat" where
  "nat_of_string s = foldl (\<lambda>acc ch. 10 * acc + digit_val ch) 0 s"

text \<open>
  The order collection as its indexes keep it: no two orders share an id, no two share
  an order number, and every stored order has a number.
\<close>

definition orders_indexed :: "order list \<Rightarrow> bool" where
  "orders_indexed os \<longleftrightarrow>
     distinct (map o_id os) \<and> distinct (map orderNumber os) \<and>
     list_all (\<lambda>x. truthy (orderNumber x)) os"

text \<open>A shop with two customers who check out one after the other, 50 ms apart; and a
  collection that holds one imported order whose number is the one the hook generates
  next.\<close>

definition ex_env_later :: env where
  "ex_env_later = ex_env\<lparr>now := 1700000000050, new_oid := 8\<rparr>"

definition ex_second_customer :: req_user where
  "ex_second_customer = \<lparr>ru_id = 5, ru_role = Customer\<rparr>"

definition ex_shop_two :: db where
  "ex_shop_two = ex_shop\<lparr>carts :=
     [3 \<mapsto> \<lparr>c_items = [\<lparr>ci_product = 1, ci_quantity = 2, ci_price = 100\<rparr>],
            c_totalAmount = 200\<rparr>,
      5 \<mapsto> \<lparr>c_items = [\<lparr>ci_product = 1, ci_quantity = 1, ci_price = 100\<rparr>],
            c_totalAmount = 100\<rparr>]\<rparr>"

definition ex_shop_two_ordered :: db where
  "ex_shop_two_ordered =
     snd (post_orders ex_env_later ex_second_customer (Some ex_address)
       (snd (post_orders ex_env ex_customer (Some ex_address) ex_shop_two)))"

definition ex_shop_imported :: db where
  "ex_shop_imported = ex_shop\<lparr>orders :=
     [ex_order\<lparr>o_id := 9, orderNumber := Some ''SON-1700000000000-0002''\<rparr>]\<rparr>"

text \<open>A catalogue as the seed script leaves it: the product carries the rating summary
  written by the seed (4.7 from 128 ratings) and one approved review, of four stars.\<close>

definition ex_review :: review where
  "ex_review = \<lparr>r_id = 20, r_type = Product_review, r_product = Some 1,
     r_deliveryPartner = None, r_order = None, r_user = 3, r_rating = 4,
     r_title = Some ''Great bike!'', r_comment = ''Great quality and design.'',
     isVerifiedPurchase = True, isApproved = True\<rparr>"

definition ex_review_db :: db where
  "ex_review_db = \<lparr>products = [1 \<mapsto> \<lparr>p_name = ''bike'', stock = 25, reservedStock = 0,
       ratings_average = Num (47 / 10), ratings_count = 128\<rparr>],
     carts = Map.empty, orders = [], deliveries = Map.empty, reviews = [ex_review],
     users = Map.empty\<rparr>"

definition ex_review_updated :: db where
  "ex_review_updated = snd (put_review ex_customer 20 (Some 5) None None ex_review_db)"

definition ex_review_deleted :: db where
  "ex_review_deleted = snd (delete_review ex_customer 20 ex_review_db)"

section \<open>Facts about the store operations\<close>

lemma findById_Some: "findById i os = Some ord \<Longrightarrow> o_id ord = i \<and> ord \<in> set os"
  unfolding findById_def by (induction os) (auto split: if_splits)

lemma findById_replace:
  assumes "o_id y = i"
  shows "findById j (map (\<lambda>x. if o_id x = i then y else x) os) =
         (if j = i then (if i \<in> o_id ` set os then Some y else None) else findById j os)"
  using assms unfolding findById_def by (induction os) auto

lemma o_id_pre_save [simp]: "o_id (pre_save e n ord) = o_id ord"
  by (simp add: pre_save_def)

lemma findById_order_save:
  assumes "findById i os = Some ord" and "o_id ord' = i"
  shows "findById j (order_save e ord' os) =
         (if j = i then Some (pre_save e (length os) ord') else findById j os)"
proof -
  from assms(1) have "i \<in> o_id ` set os"
    using findById_Some by force
  then show ?thesis
    using assms(2) by (simp add: order_save_def Let_def findById_replace)
qed

lemma length_order_save:
  assumes "findById i os = Some ord" and "o_id ord' = i"
  shows "length (order_save e ord' os) = length os"
  by (simp add: order_save_def Let_def)

lemma inc_lookup:
  "findByIdAndUpdate_inc i ds dr ps j =
     (if j = i then map_option (\<lambda>p. p\<lparr>stock := stock p + ds, reservedStock := reservedStock p + dr\<rparr>) (ps i)
      else ps j)"
  by (simp add: findByIdAndUpdate_inc_def split: option.splits)

lemma release_stock_lookup:
  "release_stock its ps j =
     map_option (\<lambda>p. p\<lparr>reservedStock := reservedStock p - qty_for j its\<rparr>) (ps j)"
proof (induction its arbitrary: ps)
  case Nil
  show ?case by (cases "ps j") (simp_all add: release_stock_def qty_for_def)
next
  case (Cons it its)
  have step: "release_stock (it # its) ps =
      release_stock its (findByIdAndUpdate_inc (i_product it) 0 (- i_quantity it) ps)"
    by (simp add: release_stock_def)
  show ?case
    unfolding step Cons.IH
    by (cases "j = i_product it"; cases "ps j") (simp_all add: inc_lookup qty_for_def algebra_simps)
qed

lemma commit_stock_lookup:
  "commit_stock its ps j =
     map_option (\<lambda>p. p\<lparr>stock := stock p - qty_for j its,
                       reservedStock := reservedStock p - qty_for j its\<rparr>) (ps j)"
proof (induction its arbitrary: ps)
  case Nil
  show ?case by (cases "ps j") (simp_all add: commit_stock_def qty_for_def)
next
  case (Cons it its)
  have step: "commit_stock (it # its) ps =
      commit_stock its (findByIdAndUpdate_inc (i_product it) (- i_quantity it) (- i_quantity it) ps)"
    by (simp add: commit_stock_def)
  show ?case
    unfolding step Cons.IH
    by (cases "j = i_product it"; cases "ps j") (simp_all add: inc_lookup qty_for_def algebra_simps)
qed

lemma pre_save_fields [simp]:
  "o_user (pre_save e n ord) = o_user ord"
  "o_items (pre_save e n ord) = o_items ord"
  "shippingAddress (pre_save e n ord) = shippingAddress ord"
  "o_status (pre_save e n ord) = o_status ord"
  "o_payment (pre_save e n ord) = o_payment ord"
  "o_delivery (pre_save e n ord) = o_delivery ord"
  "totalAmount (pre_save e n ord) = totalAmount ord"
  "o_statusHistory (pre_save e n ord) = o_statusHistory ord"
  "cancellationReason (pre_save e n ord) = cancellationReason ord"
  by (simp_all add: pre_save_def)

lemma pre_save_keeps_number:
  "truthy (orderNumber ord) \<Longrightarrow> orderNumber (pre_save e n ord) = orderNumber ord"
  by (simp add: pre_save_def)

lemma findOne_rzp_Some:
  "findOne_razorpayOrderId k os = Some ord \<Longrightarrow> findById (o_id ord) os \<noteq> None"
  unfolding findOne_razorpayOrderId_def findById_def
  by (induction os) (auto split: if_splits)

lemma findOne_rzp_mem:
  "findOne_razorpayOrderId k os = Some ord \<Longrightarrow> o_id ord \<in> o_id ` set os"
  unfolding findOne_razorpayOrderId_def
  by (induction os) (auto split: if_splits)

lemma findById_order_save_mem:
  assumes "o_id ord' \<in> o_id ` set os"
  shows "findById j (order_save e ord' os) =
         (if j = o_id ord' then Some (pre_save e (length os) ord') else findById j os)"
  using assms by (simp add: order_save_def Let_def findById_replace)

lemma validate_stock_None:
  "validate_stock ps its = None \<longleftrightarrow>
     (\<forall>l \<in> set its. \<exists>p. ps (ci_product l) = Some p \<and> ci_quantity l \<le> stock p - reservedStock p)"
  by (induction its) (auto simp: Let_def split: option.splits)

lemma validate_stock_400:
  assumes "\<forall>l \<in> set its. ps (ci_product l) \<noteq> None"
      and "\<exists>l \<in> set its. \<exists>p. ps (ci_product l) = Some p \<and> ci_quantity l > stock p - reservedStock p"
  shows "\<exists>l \<in> set its. \<exists>p. ps (ci_product l) = Some p \<and>
           ci_quantity l > stock p - reservedStock p \<and>
           validate_stock ps its = Some (respond 400 False (insufficient_message p))"
  using assms
proof (induction its)
  case Nil
  then show ?case by simp
next
  case (Cons it its)
  from Cons.prems(1) obtain p where p: "ps (ci_product it) = Some p"
    by auto
  show ?case
  proof (cases "ci_quantity it > stock p - reservedStock p")
    case True
    then show ?thesis
      using p by (auto simp: Let_def insufficient_message_def)
  next
    case False
    with Cons.prems p have
      "\<exists>l \<in> set its. \<exists>p. ps (ci_product l) = Some p \<and> ci_quantity l > stock p - reservedStock p"
      "\<forall>l \<in> set its. ps (ci_product l) \<noteq> None"
      by auto
    from Cons.IH [OF this(2) this(1)] show ?thesis
      using p False by (auto simp: Let_def)
  qed
qed

lemma validate_stock_fails:
  assumes "\<exists>l \<in> set its. \<exists>p. ps (ci_product l) = Some p \<and> ci_quantity l > stock p - reservedStock p"
  shows "\<exists>r. validate_stock ps its = Some r \<and> \<not> success r"
  using assms
proof (induction its)
  case Nil
  then show ?case by simp
next
  case (Cons it its)
  then show ?case
    by (cases "ps (ci_product it)") (auto simp: Let_def respond_def)
qed

text \<open>The store changes only once the stock check has passed for the whole cart.\<close>

lemma post_orders_checked_first:
  "snd (post_orders e u addr s) \<noteq> s \<Longrightarrow>
     \<exists>c. carts s (ru_id u) = Some c \<and> validate_stock (products s) (c_items c) = None"
  by (auto simp: post_orders_def Let_def split: option.splits if_splits sum.splits)

text \<open>When \<open>Order.create\<close> throws, the reservations of the request stay.\<close>

lemma post_orders_create_fails:
  assumes "carts s (ru_id u) = Some c" and "c_items c \<noteq> []"
      and "validate_stock (products s) (c_items c) = None"
      and "Order_create e (new_order e u shipping c (products s)) (orders s) = Inl err"
  shows "post_orders e u (Some shipping) s =
           (respond 500 False (save_error_message err),
            s\<lparr>products := reserve_stock (c_items c) (products s)\<rparr>)"
  using assms by (simp add: post_orders_def Let_def)

lemma ex_shop_ordered_products:
  "products ex_shop_ordered 1 = Some \<lparr>p_name = ''bike'', stock = 5, reservedStock = 2,
       ratings_average = Num 0, ratings_count = 0\<rparr>"
  by (simp add: ex_shop_ordered_def post_orders_def ex_shop_def ex_customer_def truthy_def
        reserve_stock_def findByIdAndUpdate_inc_def Let_def Order_create_def
        validate_order_def new_order_def ex_address_def ex_env_def pre_save_def)

lemma ex_shop_ordered_order:
  "\<exists>ord. findById 7 (orders ex_shop_ordered) = Some ord \<and> o_status ord = Created \<and>
     o_user ord = 3 \<and>
     o_items ord = [\<lparr>i_product = 1, i_name = ''bike'', i_quantity = 2, i_price = 100\<rparr>]"
  by (simp add: ex_shop_ordered_def post_orders_def ex_shop_def ex_customer_def truthy_def
        Let_def Order_create_def validate_order_def findById_def ex_env_def
        populated_name_def pre_save_def new_order_def ex_address_def)


lemma post_payments_verify_run:
  assumes "hmac_sha256_hex e (key_secret e) (razorpay_order_id v @ ''|'' @ razorpay_payment_id v)
             = razorpay_signature v"
      and "findById (v_orderId v) (orders s) = Some ord"
      and "payments_fetch e (razorpay_payment_id v) = Some m"
  shows "fst (post_payments_verify e u v s) = respond 200 True ''Payment verified successfully''"
    and "products (snd (post_payments_verify e u v s)) = commit_stock (o_items ord) (products s)"
    and "\<exists>ord'. findById (v_orderId v) (orders (snd (post_payments_verify e u v s))) = Some ord' \<and>
           o_status ord' = Paid \<and> pay_status (o_payment ord') = Payment_completed \<and>
           o_items ord' = o_items ord \<and> o_user ord' = o_user ord"
proof -
  define ord1 where "ord1 = ord\<lparr>
       o_payment := \<lparr>razorpayOrderId = Some (razorpay_order_id v),
         razorpayPaymentId = Some (razorpay_payment_id v),
         razorpaySignature = Some (razorpay_signature v),
         pay_method = Some m, pay_status = Payment_completed, paidAt = Some (now e)\<rparr>,
       o_status := Paid,
       o_statusHistory := o_statusHistory ord @
         [\<lparr>oh_status = ''paid'', oh_timestamp = now e,
           oh_note = Some (''Payment completed via '' @ m),
           oh_updatedBy = Some (ru_id u)\<rparr>]\<rparr>"
  have run: "post_payments_verify e u v s =
      (respond 200 True ''Payment verified successfully'',
       s\<lparr>products := commit_stock (o_items ord) (products s),
         orders := order_save e ord1 (orders s)\<rparr>)"
    using assms by (simp add: post_payments_verify_def Let_def ord1_def)
  have id1: "o_id ord1 = v_orderId v"
    using assms(2) findById_Some by (simp add: ord1_def)
  have look: "findById (v_orderId v) (order_save e ord1 (orders s)) =
      Some (pre_save e (length (orders s)) ord1)"
    using findById_order_save [OF assms(2) id1] by simp
  show "fst (post_payments_verify e u v s) = respond 200 True ''Payment verified successfully''"
    and "products (snd (post_payments_verify e u v s)) = commit_stock (o_items ord) (products s)"
    by (simp_all add: run)
  show "\<exists>ord'. findById (v_orderId v) (orders (snd (post_payments_verify e u v s))) = Some ord' \<and>
           o_status ord' = Paid \<and> pay_status (o_payment ord') = Payment_completed \<and>
           o_items ord' = o_items ord \<and> o_user ord' = o_user ord"
    unfolding run by (simp add: look) (simp add: ord1_def)
qed

lemma post_order_cancel_run:
  assumes "findById oid (orders s) = Some ord"
      and "ru_role u = Admin \<or> o_user ord = ru_id u"
      and "o_status ord \<in> {Created, Paid, Packed}"
  shows "fst (post_order_cancel e u oid reason s) = respond 200 True []"
    and "products (snd (post_order_cancel e u oid reason s)) =
           release_stock (o_items ord) (products s)"
  using assms by (auto simp add: post_order_cancel_def Let_def nonCancellable_def)

lemma ex_verify_signed:
  "hmac_sha256_hex ex_env (key_secret ex_env)
     (razorpay_order_id ex_verify_req @ ''|'' @ razorpay_payment_id ex_verify_req)
     = razorpay_signature ex_verify_req"
  "payments_fetch ex_env (razorpay_payment_id ex_verify_req) = Some ''upi''"
  "v_orderId ex_verify_req = 7"
  by (simp_all add: ex_env_def ex_verify_req_def)

lemma digit_cases: "d < 10 \<Longrightarrow> d \<in> {0, 1, 2, 3, 4, 5, 6, 7, 8, 9 :: nat}"
  by auto

lemma digit_val_digit_char: "d < 10 \<Longrightarrow> digit_val (digit_char d) = d"
  using digit_cases [of d] by (auto simp: digit_val_def digit_char_def)

lemma digit_char_in: "d < 10 \<Longrightarrow> digit_char d \<in> set ''0123456789''"
  using digit_cases [of d] by (auto simp: digit_char_def)

lemma string_of_nat_digits: "set (string_of_nat n) \<subseteq> set ''0123456789''"
proof (induction n rule: string_of_nat.induct)
  case (1 n)
  show ?case
  proof (cases "n < 10")
    case True
    then show ?thesis
      using digit_char_in [of n] by (subst string_of_nat.simps) simp
  next
    case False
    then show ?thesis
      using 1 digit_char_in [of "n mod 10"] by (subst string_of_nat.simps) simp
  qed
qed

lemma nat_of_string_snoc: "nat_of_string (s @ [ch]) = 10 * nat_of_string s + digit_val ch"
  by (simp add: nat_of_string_def)

lemma nat_of_string_of_nat: "nat_of_string (string_of_nat n) = n"
proof (induction n rule: string_of_nat.induct)
  case (1 n)
  show ?case
  proof (cases "n < 10")
    case True
    then show ?thesis
      by (subst string_of_nat.simps) (simp add: nat_of_string_def digit_val_digit_char)
  next
    case False
    then show ?thesis
      using 1 by (subst string_of_nat.simps) (simp add: nat_of_string_snoc digit_val_digit_char)
  qed
qed

lemma nat_of_string_zeros: "nat_of_string (replicate k CHR ''0'' @ s) = nat_of_string s"
proof -
  have "foldl (\<lambda>acc ch. 10 * acc + digit_val ch) 0 (replicate k CHR ''0'') = 0"
    by (induction k) (simp_all add: digit_val_def)
  then show ?thesis
    by (simp add: nat_of_string_def)
qed

lemma nat_of_padStart: "nat_of_string (padStart 4 CHR ''0'' (string_of_nat n)) = n"
  by (simp add: padStart_def nat_of_string_zeros nat_of_string_of_nat)

lemma length_string_of_nat_pos: "0 < length (string_of_nat n)"
  by (subst string_of_nat.simps) simp

lemma length_string_of_nat: "0 < k \<Longrightarrow> length (string_of_nat n) \<le> k \<longleftrightarrow> n < 10 ^ k"
proof (induction n arbitrary: k rule: string_of_nat.induct)
  case (1 n)
  show ?case
  proof (cases "n < 10")
    case True
    have "(10::nat) ^ 1 \<le> 10 ^ k"
      using "1.prems" by (intro power_increasing) simp_all
    with True have "n < 10 ^ k" by simp
    with True "1.prems" show ?thesis
      by (subst string_of_nat.simps) (simp add: Suc_le_eq)
  next
    case False
    show ?thesis
    proof (cases k)
      case 0
      with "1.prems" show ?thesis by simp
    next
      case (Suc j)
      show ?thesis
      proof (cases "j = 0")
        case True
        with Suc False show ?thesis
          using length_string_of_nat_pos [of "n div 10"]
          by (subst string_of_nat.simps) simp
      next
        case jpos: False
        then have ih: "length (string_of_nat (n div 10)) \<le> j \<longleftrightarrow> n div 10 < 10 ^ j"
          using "1.IH" [OF False, of j] by simp
        have "n div 10 < 10 ^ j \<longleftrightarrow> n < 10 ^ Suc j"
          by (simp add: div_less_iff_less_mult mult.commute)
        with ih Suc False show ?thesis
          by (subst string_of_nat.simps) simp
      qed
    qed
  qed
qed

lemma length_padStart4:
  "4 \<le> length (padStart 4 CHR ''0'' (string_of_nat n))"
  "length (padStart 4 CHR ''0'' (string_of_nat n)) = 4 \<longleftrightarrow> n < 10000"
proof -
  have iff: "length (string_of_nat n) \<le> 4 \<longleftrightarrow> n < 10000"
    using length_string_of_nat [of 4 n] by simp
  show "4 \<le> length (padStart 4 CHR ''0'' (string_of_nat n))"
    by (simp add: padStart_def)
  show "length (padStart 4 CHR ''0'' (string_of_nat n)) = 4 \<longleftrightarrow> n < 10000"
    unfolding iff [symmetric] by (auto simp: padStart_def)
qed

lemma padStart_digits: "set (padStart 4 CHR ''0'' (string_of_nat n)) \<subseteq> set ''0123456789''"
  using string_of_nat_digits [of n] by (auto simp: padStart_def)

lemma split_at_dash:
  assumes "CHR ''-'' \<notin> set a" and "CHR ''-'' \<notin> set a'"
      and "a @ CHR ''-'' # b = a' @ CHR ''-'' # b'"
  shows "a = a' \<and> b = b'"
proof -
  have "takeWhile (\<lambda>c. c \<noteq> CHR ''-'') (a @ CHR ''-'' # b) = a"
       "takeWhile (\<lambda>c. c \<noteq> CHR ''-'') (a' @ CHR ''-'' # b') = a'"
    using assms(1,2) by (auto simp add: takeWhile_tail takeWhile_eq_all_conv)
  with assms(3) have "a = a'" by simp
  with assms(3) show ?thesis by simp
qed

lemma no_dash: "CHR ''-'' \<notin> set (string_of_nat n)"
  using string_of_nat_digits [of n] by auto

lemma gen_orderNumber_inj:
  assumes "gen_orderNumber ms c = gen_orderNumber ms' c'"
  shows "ms = ms' \<and> c = c'"
proof -
  from assms have
    "string_of_nat ms @ CHR ''-'' # padStart 4 CHR ''0'' (string_of_nat (c + 1)) =
     string_of_nat ms' @ CHR ''-'' # padStart 4 CHR ''0'' (string_of_nat (c' + 1))"
    by (simp add: gen_orderNumber_def)
  from split_at_dash [OF no_dash no_dash this] have
    a: "string_of_nat ms = string_of_nat ms'" and
    b: "padStart 4 CHR ''0'' (string_of_nat (c + 1)) = padStart 4 CHR ''0'' (string_of_nat (c' + 1))"
    by simp_all
  from a have "ms = ms'"
    using nat_of_string_of_nat by metis
  moreover from b have "c + 1 = c' + 1"
    using nat_of_padStart by metis
  ultimately show ?thesis by simp
qed


lemma gen_orderNumber_truthy: "truthy (Some (gen_orderNumber ms c))"
  by (simp add: truthy_def gen_orderNumber_def)

lemma pre_save_truthy: "truthy (orderNumber (pre_save e n ord))"
  by (simp add: pre_save_def gen_orderNumber_truthy)

lemma pre_save_id: "truthy (orderNumber ord) \<Longrightarrow> pre_save e n ord = ord"
  by (simp add: pre_save_def)

lemma orders_indexed_find:
  assumes "orders_indexed os" and "x \<in> set os"
  shows "findById (o_id x) os = Some x"
proof -
  have "distinct (map o_id os)"
    using assms(1) by (simp add: orders_indexed_def)
  then show ?thesis
    using assms(2) unfolding findById_def
    by (induction os) (auto simp: image_iff)
qed

lemma indexed_save:
  assumes "orders_indexed os"
      and "map_option orderNumber (findById (o_id upd) os) = Some (orderNumber upd)"
  shows "orders_indexed (order_save e upd os)"
proof -
  from assms(2) obtain x where x: "findById (o_id upd) os = Some x"
      "orderNumber x = orderNumber upd"
    by auto
  then have xin: "x \<in> set os" and xid: "o_id x = o_id upd"
    using findById_Some by blast+
  have same: "y = x" if "y \<in> set os" "o_id y = o_id upd" for y
  proof -
    have "findById (o_id y) os = Some y"
      using assms(1) that(1) by (rule orders_indexed_find)
    with x(1) that(2) show ?thesis by simp
  qed
  have tr: "truthy (orderNumber upd)"
    using assms(1) xin x(2) by (auto simp: orders_indexed_def list_all_iff)
  then have keep: "pre_save e (length os) upd = upd"
    by (rule pre_save_id)
  have ids: "map o_id (order_save e upd os) = map o_id os"
    by (simp add: order_save_def Let_def keep)
  have nums: "map orderNumber (order_save e upd os) = map orderNumber os"
    using same x(2) by (auto simp: order_save_def Let_def keep)
  have "list_all (\<lambda>y. truthy (orderNumber y)) (order_save e upd os)"
    using assms(1) tr by (auto simp: order_save_def Let_def keep orders_indexed_def list_all_iff)
  then show ?thesis
    using assms(1) by (simp add: orders_indexed_def ids nums)
qed

lemma indexed_create:
  assumes "orders_indexed os" and "Order_create e ord os = Inr os'"
  shows "orders_indexed os'"
proof -
  from assms(2) have os': "os' = os @ [pre_save e (length os) ord]"
      and fresh: "o_id ord \<notin> set (map o_id os)"
        "orderNumber (pre_save e (length os) ord) \<notin> set (map orderNumber os)"
    by (auto simp: Order_create_def Let_def split: if_splits)
  show ?thesis
    using assms(1) fresh pre_save_truthy [of e "length os" ord]
    by (simp add: os' orders_indexed_def)
qed

lemma indexed_post_orders:
  assumes "orders_indexed (orders s)"
  shows "orders_indexed (orders (snd (post_orders e u addr s)))"
  using assms indexed_create [of "orders s" e]
  by (auto simp: post_orders_def Let_def split: option.splits if_splits sum.splits)

lemma indexed_put_order_status:
  assumes "orders_indexed (orders s)"
  shows "orders_indexed (orders (snd (put_order_status e u oid status_str note s)))"
  using assms
  by (auto simp: put_order_status_def Let_def split: option.splits
      dest!: findById_Some intro!: indexed_save simp: orders_indexed_find)

lemma indexed_post_order_cancel:
  assumes "orders_indexed (orders s)"
  shows "orders_indexed (orders (snd (post_order_cancel e u oid reason s)))"
  using assms
  by (auto simp: post_order_cancel_def Let_def split: option.splits
      dest!: findById_Some intro!: indexed_save simp: orders_indexed_find)

lemma replicate_3: "replicate 3 c = [c, c, c]"
  by (simp add: numeral_3_eq_3)

lemma ex_gen_orderNumber:
  "gen_orderNumber 1700000000000 0 = ''SON-1700000000000-0001''"
  "gen_orderNumber 1700000000000 9999 = ''SON-1700000000000-10000''"
  by (simp_all add: gen_orderNumber_def string_of_nat.simps padStart_def digit_char_def
        replicate_3)

lemma fl_0: "fl 0 = 0"
  by (simp add: fl_def)

lemma fl_5: "fl 5 = 5"
  by (simp add: fl_def scale_up.simps scale_down.simps round_half_even_def)

lemma fl_50: "fl 50 = 50"
  by (simp add: fl_def scale_up.simps scale_down.simps round_half_even_def)

lemma round1_5: "round1 (Num 5) = Num 5"
proof -
  have "\<lfloor>(50::rat) + 1 / 2\<rfloor> = 50"
    by (simp add: floor_eq_iff)
  then show ?thesis
    by (simp add: fl_50 fl_5)
qed

lemma round1_0: "round1 (Num 0) = Num 0"
proof -
  have "\<lfloor>(1::rat) / 2\<rfloor> = 0"
    by (simp add: floor_eq_iff)
  then show ?thesis
    by (simp add: fl_0)
qed

lemma round1_Num: "round1 (Num x) \<noteq> NaN"
  by simp

lemma trim_ex: "trim ''Great bike!'' = ''Great bike!''"
  by (simp add: trim_def is_space_def)

lemma ex_update_reviews:
  "reviews ex_review_updated = [ex_review\<lparr>r_rating := 5\<rparr>]"
  by (simp add: ex_review_updated_def put_review_def find_review_def ex_review_db_def
        ex_review_def ex_customer_def Let_def truthy_def or_default_def fl_5
        validate_review_def trim_ex approved_product_reviews_def mean_rating_def
        set_product_average_def del: round1.simps)

text \<open>What the three review handlers write for a product review: delete and moderate
  recompute average and count and guard the empty case; update writes the unguarded
  average and nothing else, and fails on the cast when no approved review is left.\<close>

lemma mean_rating_guarded_Num: "\<exists>x. mean_rating_guarded rs = Num x"
  by (simp add: mean_rating_guarded_def mean_rating_def)

lemma delete_review_recomputes:
  assumes "find_review rid (reviews s) = Some rv"
      and "r_user rv = ru_id u \<or> ru_role u = Admin"
      and "r_type rv = Product_review" and "r_product rv = Some pid"
      and "products s pid = Some p"
  shows "let s' = snd (delete_review u rid s);
             found = approved_product_reviews (Some pid) (reviews s')
         in reviews s' = filter (\<lambda>r. r_id r \<noteq> rid) (reviews s) \<and>
            products s' pid = Some (p\<lparr>
              ratings_average := round1 (if found = [] then Num 0 else mean_rating found),
              ratings_count := length found\<rparr>)"
proof -
  obtain x where x: "mean_rating_guarded (approved_product_reviews (Some pid)
      (filter (\<lambda>r. r_id r \<noteq> rid) (reviews s))) = Num x"
    using mean_rating_guarded_Num by blast
  show ?thesis
    using assms x
    by (auto simp add: delete_review_def Let_def set_product_ratings_def
        mean_rating_guarded_def round1_Num simp del: round1.simps split: if_splits)
qed

lemma moderate_review_recomputes:
  assumes "find_review rid (reviews s) = Some rv"
      and "r_type rv = Product_review" and "r_product rv = Some pid"
      and "products s pid = Some p"
  shows "let s' = snd (moderate_review rid approved s);
             found = approved_product_reviews (Some pid) (reviews s')
         in products s' pid = Some (p\<lparr>
              ratings_average := round1 (if found = [] then Num 0 else mean_rating found),
              ratings_count := length found\<rparr>)"
proof -
  obtain x where x: "mean_rating_guarded (approved_product_reviews (Some pid)
      (map (\<lambda>r. if r_id r = rid then rv\<lparr>isApproved := approved\<rparr> else r) (reviews s))) = Num x"
    using mean_rating_guarded_Num by blast
  show ?thesis
    using assms x
    by (auto simp add: moderate_review_def Let_def set_product_ratings_def
        mean_rating_guarded_def round1_Num simp del: round1.simps split: if_splits)
qed

lemma put_review_recomputes_average_only:
  assumes "find_review rid (reviews s) = Some rv"
      and "r_user rv = ru_id u"
      and "r_type rv = Product_review" and "r_product rv = Some pid"
      and "products s pid = Some p"
      and "code (fst (put_review u rid rating title comment s)) = 200"
  shows "let s' = snd (put_review u rid rating title comment s);
             found = approved_product_reviews (Some pid) (reviews s')
         in found \<noteq> [] \<and>
            products s' pid = Some (p\<lparr>ratings_average := round1 (mean_rating found)\<rparr>)"
  using assms
  by (auto simp add: put_review_def Let_def set_product_average_def mean_rating_def
      respond_def round1_Num simp del: round1.simps(2) split: if_splits option.splits)

lemma put_review_without_approved:
  assumes "find_review rid (reviews s) = Some rv"
      and "r_user rv = ru_id u"
      and "r_type rv = Product_review"
      and "approved_product_reviews (r_product rv)
             (reviews (snd (put_review u rid rating title comment s))) = []"
  shows "code (fst (put_review u rid rating title comment s)) = 500 \<and>
         products (snd (put_review u rid rating title comment s)) = products s"
  using assms
  by (auto simp add: put_review_def Let_def set_product_average_def mean_rating_def
      respond_def round1_Num simp del: round1.simps(2) split: if_splits option.splits)

lemma findOne_rzp_in_set:
  "findOne_razorpayOrderId k os = Some x \<Longrightarrow> x \<in> set os"
  unfolding findOne_razorpayOrderId_def by (induction os) (auto split: if_splits)

lemma findOne_pay_in_set:
  "findOne_razorpayPaymentId k os = Some x \<Longrightarrow> x \<in> set os"
  unfolding findOne_razorpayPaymentId_def by (induction os) (auto split: if_splits)

lemma indexed_save_member:
  assumes "orders_indexed os" and "x \<in> set os"
      and "o_id upd = o_id x" and "orderNumber upd = orderNumber x"
  shows "orders_indexed (order_save e upd os)"
  using assms orders_indexed_find [of os x] by (intro indexed_save) simp_all

lemma indexed_save_found:
  assumes "orders_indexed os" and "findById i os = Some x"
      and "o_id upd = o_id x" and "orderNumber upd = orderNumber x"
  shows "orders_indexed (order_save e upd os)"
  using assms findById_Some [of i os x] by (intro indexed_save_member [of os x]) simp_all

lemma indexed_post_payments_verify:
  assumes "orders_indexed (orders s)"
  shows "orders_indexed (orders (snd (post_payments_verify e u v s)))"
  using assms
  by (auto simp: post_payments_verify_def Let_def split: option.splits
      intro: indexed_save_found)

lemma indexed_post_payments_webhook:
  assumes "orders_indexed (orders s)"
  shows "orders_indexed (orders (snd (post_payments_webhook e r s)))"
  using assms
  by (auto simp: post_payments_webhook_def Let_def split: option.splits webhook_event.splits
      dest!: findOne_rzp_in_set findOne_pay_in_set intro: indexed_save_member)

lemma indexed_put_delivery_status:
  assumes "orders_indexed (orders s)"
  shows "orders_indexed (orders (snd (put_delivery_status e u did status_str note location s)))"
  using assms
  by (auto simp: put_delivery_status_def Let_def split: option.splits
      intro: indexed_save_found)

lemma indexed_post_delivery_confirm:
  assumes "orders_indexed (orders s)"
  shows "orders_indexed (orders (snd (post_delivery_confirm e u did signature proofImage note s)))"
  using assms
  by (auto simp: post_delivery_confirm_def Let_def split: option.splits
      intro: indexed_save_found)

lemma ex_gen_orderNumber_second:
  "gen_orderNumber 1700000000050 1 = ''SON-1700000000050-0002''"
  "gen_orderNumber 1700000000000 1 = ''SON-1700000000000-0002''"
  by (simp_all add: gen_orderNumber_def string_of_nat.simps padStart_def digit_char_def
        replicate_3)

lemma ex_shop_two_first:
  "map orderNumber (orders (snd (post_orders ex_env ex_customer (Some ex_address) ex_shop_two)))
     = [Some ''SON-1700000000000-0001'']"
  "carts (snd (post_orders ex_env ex_customer (Some ex_address) ex_shop_two)) 5 =
     Some \<lparr>c_items = [\<lparr>ci_product = 1, ci_quantity = 1, ci_price = 100\<rparr>], c_totalAmount = 100\<rparr>"
  "map o_id (orders (snd (post_orders ex_env ex_customer (Some ex_address) ex_shop_two))) = [7]"
  "map_option (\<lambda>p. (stock p, reservedStock p))
     (products (snd (post_orders ex_env ex_customer (Some ex_address) ex_shop_two)) 1) = Some (5, 2)"
  by (simp_all add: post_orders_def ex_shop_two_def ex_shop_def ex_customer_def
        reserve_stock_def findByIdAndUpdate_inc_def Let_def Order_create_def
        validate_order_def new_order_def ex_address_def ex_env_def pre_save_def truthy_def
        ex_gen_orderNumber)

lemma ex_gen_orderNumber_Suc:
  "gen_orderNumber 1700000000050 (Suc 0) = ''SON-1700000000050-0002''"
  "gen_orderNumber 1700000000000 (Suc 0) = ''SON-1700000000000-0002''"
  using ex_gen_orderNumber_second by simp_all

lemma post_orders_created:
  assumes "carts s (ru_id u) = Some c" and "c_items c \<noteq> []"
      and "validate_stock (products s) (c_items c) = None"
      and "Order_create e (new_order e u shipping c (products s)) (orders s) = Inr os'"
  shows "post_orders e u (Some shipping) s =
           (respond 201 True [],
            s\<lparr>products := reserve_stock (c_items c) (products s), orders := os',
              carts := (carts s)(ru_id u \<mapsto> c\<lparr>c_items := []\<rparr>)\<rparr>)"
  using assms by (simp add: post_orders_def Let_def)

lemma ex_shop_two_second:
  "map orderNumber (orders ex_shop_two_ordered) =
     [Some ''SON-1700000000000-0001'', Some ''SON-1700000000050-0002'']"
proof -
  define s1 where "s1 = snd (post_orders ex_env ex_customer (Some ex_address) ex_shop_two)"
  define c where "c = \<lparr>c_items = [\<lparr>ci_product = 1, ci_quantity = 1, ci_price = 100\<rparr>],
      c_totalAmount = 100\<rparr>"
  note first = ex_shop_two_first [folded s1_def]
  obtain o1 where o1: "orders s1 = [o1]" "orderNumber o1 = Some ''SON-1700000000000-0001''"
      "o_id o1 = 7"
    using first(1,3) by (cases "orders s1") auto
  obtain p where p: "products s1 1 = Some p" "stock p = 5" "reservedStock p = 2"
    using first(4) by auto
  have cart: "carts s1 (ru_id ex_second_customer) = Some c"
    using first(2) by (simp add: ex_second_customer_def c_def)
  have ne: "c_items c \<noteq> []"
    by (simp add: c_def)
  have check: "validate_stock (products s1) (c_items c) = None"
    using p by (simp add: c_def)
  have "now ex_env_later = 1700000000050" "new_oid ex_env_later = 8"
    by (simp_all add: ex_env_later_def)
  then have create: "Order_create ex_env_later
      (new_order ex_env_later ex_second_customer ex_address c (products s1)) (orders s1) =
      Inr ([o1, (new_order ex_env_later ex_second_customer ex_address c (products s1))
                 \<lparr>orderNumber := Some ''SON-1700000000050-0002''\<rparr>])"
    by (simp add: Order_create_def validate_order_def new_order_def ex_address_def c_def
        truthy_def Let_def pre_save_def o1 ex_gen_orderNumber_Suc)
  show ?thesis
    unfolding ex_shop_two_ordered_def s1_def [symmetric]
    by (simp add: post_orders_created [OF cart ne check create] o1)
qed

lemma ex_shop_imported_refused:
  "code (fst (post_orders ex_env ex_customer (Some ex_address) ex_shop_imported)) = 500"
  "map orderNumber (orders (snd (post_orders ex_env ex_customer (Some ex_address)
     ex_shop_imported))) = [Some ''SON-1700000000000-0002'']"
  "map_option reservedStock (products (snd (post_orders ex_env ex_customer (Some ex_address)
     ex_shop_imported)) 1) = Some 2"
  by (simp_all add: post_orders_def ex_shop_imported_def ex_shop_def ex_customer_def
        reserve_stock_def findByIdAndUpdate_inc_def Let_def Order_create_def
        validate_order_def new_order_def ex_address_def ex_env_def pre_save_def truthy_def
        ex_gen_orderNumber_Suc respond_def ex_order_def)

section \<open>C1: the stock invariant\<close>

text \<open>
  C1 states that \<open>0 \<le> reservedStock \<le> stock\<close> holds for every product after every
  operation, and that a release never takes \<open>reservedStock\<close> below 0.  The handlers do
  not keep it.  At the shop below the customer checks out two units (\<open>reservedStock\<close>
  0 to 2), pays through \<open>/payments/verify\<close> (stock 5 to 3, \<open>reservedStock\<close> 2 to 0)
  and then cancels the order, which is allowed in status paid: the release loop subtracts
  the two units again and \<open>reservedStock\<close> is -2.
\<close>

theorem cancel_after_payment_breaks_invariant:
  "map_option stock_invariant (products ex_shop 1) = Some True \<and>
   map_option (\<lambda>p. (stock p, reservedStock p)) (products ex_shop_ordered 1) = Some (5, 2) \<and>
   map_option (\<lambda>p. (stock p, reservedStock p)) (products ex_shop_paid 1) = Some (3, 0) \<and>
   map_option o_status (findById 7 (orders ex_shop_paid)) = Some Paid \<and>
   code (fst (post_order_cancel ex_env ex_customer 7 (Some ''changed mind'') ex_shop_paid)) = 200 \<and>
   map_option (\<lambda>p. (stock p, reservedStock p)) (products ex_shop_cancelled 1) = Some (3, - 2) \<and>
   map_option stock_invariant (products ex_shop_cancelled 1) = Some False"
proof -
  have a0: "map_option stock_invariant (products ex_shop 1) = Some True"
    by (simp add: ex_shop_def stock_invariant_def)
  from ex_shop_ordered_order obtain ord1 where
    ord1: "findById 7 (orders ex_shop_ordered) = Some ord1" "o_status ord1 = Created"
      "o_user ord1 = 3"
      "o_items ord1 = [\<lparr>i_product = 1, i_name = ''bike'', i_quantity = 2, i_price = 100\<rparr>]"
    by blast
  have f1: "findById (v_orderId ex_verify_req) (orders ex_shop_ordered) = Some ord1"
    using ord1(1) by (simp add: ex_verify_signed)
  note paid = post_payments_verify_run [OF ex_verify_signed(1) f1 ex_verify_signed(2),
      of ex_customer, folded ex_shop_paid_def]
  have a2: "products ex_shop_paid 1 = Some \<lparr>p_name = ''bike'', stock = 3, reservedStock = 0,
       ratings_average = Num 0, ratings_count = 0\<rparr>"
    using ex_shop_ordered_products
    by (simp add: paid(2) commit_stock_lookup ord1(4) qty_for_def)
  from paid(3) obtain ord2 where
    ord2: "findById 7 (orders ex_shop_paid) = Some ord2" "o_status ord2 = Paid"
      "o_items ord2 = o_items ord1" "o_user ord2 = o_user ord1"
    by (auto simp: ex_verify_signed)
  have auth: "ru_role ex_customer = Admin \<or> o_user ord2 = ru_id ex_customer"
    by (simp add: ord2(4) ord1(3) ex_customer_def)
  have st: "o_status ord2 \<in> {Created, Paid, Packed}"
    by (simp add: ord2(2))
  note cancelled = post_order_cancel_run [OF ord2(1) auth st, of ex_env "Some ''changed mind''",
      folded ex_shop_cancelled_def]
  have a3: "products ex_shop_cancelled 1 = Some \<lparr>p_name = ''bike'', stock = 3,
       reservedStock = - 2, ratings_average = Num 0, ratings_count = 0\<rparr>"
    using a2 by (simp add: cancelled(2) release_stock_lookup ord2(3) ord1(4) qty_for_def)
  show ?thesis
    using a0 ex_shop_ordered_products a2 a3
    by (simp add: ord2 cancelled(1) respond_def stock_invariant_def)
qed

section \<open>C2: checkout validates every line before it reserves\<close>

text \<open>
  C2.  \<open>POST /api/orders\<close> runs the stock check over all cart lines before the first
  reservation.  When some line of the caller's cart asks for more than
  \<open>stock - reservedStock\<close> of its product, the request fails and the store is left
  exactly as it was, so no product's \<open>reservedStock\<close> has moved; when every line's
  product still exists the answer is 400, and with a shipping address given its message
  is the insufficient-stock message of a line that fails the check.
\<close>

theorem post_orders_all_or_nothing:
  assumes "carts s (ru_id u) = Some c"
      and "\<exists>l \<in> set (c_items c). \<exists>p. products s (ci_product l) = Some p \<and>
             ci_quantity l > stock p - reservedStock p"
  shows "snd (post_orders e u addr s) = s \<and>
         \<not> success (fst (post_orders e u addr s)) \<and>
         ((\<forall>l \<in> set (c_items c). products s (ci_product l) \<noteq> None) \<longrightarrow>
            code (fst (post_orders e u addr s)) = 400 \<and>
            (addr \<noteq> None \<longrightarrow>
               (\<exists>l \<in> set (c_items c). \<exists>p. products s (ci_product l) = Some p \<and>
                  ci_quantity l > stock p - reservedStock p \<and>
                  message (fst (post_orders e u addr s)) = insufficient_message p)))"
proof -
  from validate_stock_fails [OF assms(2)] obtain r where
    r: "validate_stock (products s) (c_items c) = Some r" "\<not> success r"
    by blast
  have ne: "c_items c \<noteq> []"
    using assms(2) by auto
  have run: "addr \<noteq> None \<Longrightarrow> post_orders e u addr s = (r, s)"
    using assms(1) ne r(1) by (auto simp add: post_orders_def)
  have run': "addr = None \<Longrightarrow>
      post_orders e u addr s = (respond 400 False ''Shipping address is required'', s)"
    by (simp add: post_orders_def)
  have unchanged: "snd (post_orders e u addr s) = s \<and> \<not> success (fst (post_orders e u addr s))"
    using run run' r(2) by (cases "addr = None") (simp_all add: respond_def)
  have resolved: "code (fst (post_orders e u addr s)) = 400 \<and>
            (addr \<noteq> None \<longrightarrow>
               (\<exists>l \<in> set (c_items c). \<exists>p. products s (ci_product l) = Some p \<and>
                  ci_quantity l > stock p - reservedStock p \<and>
                  message (fst (post_orders e u addr s)) = insufficient_message p))"
    if all: "\<forall>l \<in> set (c_items c). products s (ci_product l) \<noteq> None"
  proof -
    from validate_stock_400 [OF all assms(2)] obtain l p where
      lp: "l \<in> set (c_items c)" "products s (ci_product l) = Some p"
          "ci_quantity l > stock p - reservedStock p"
          "validate_stock (products s) (c_items c) =
             Some (respond 400 False (insufficient_message p))"
      by blast
    with r(1) have "r = respond 400 False (insufficient_message p)"
      by simp
    then show ?thesis
      using run run' lp by (cases "addr = None") (auto simp: respond_def)
  qed
  show ?thesis
    using unchanged resolved by blast
qed

text \<open>A cart of two lines: the first passes the check, the second asks for three of a
  product with one unit available.  Nothing is reserved, not even for the first line.\<close>

theorem post_orders_all_or_nothing_witness:
  "carts ex_cart_db (ru_id ex_customer) =
     Some \<lparr>c_items = [\<lparr>ci_product = 1, ci_quantity = 1, ci_price = 100\<rparr>,
                      \<lparr>ci_product = 2, ci_quantity = 3, ci_price = 20\<rparr>],
           c_totalAmount = 160\<rparr> \<and>
   snd (post_orders ex_env ex_customer (Some ex_address) ex_cart_db) = ex_cart_db \<and>
   code (fst (post_orders ex_env ex_customer (Some ex_address) ex_cart_db)) = 400 \<and>
   map_option reservedStock (products ex_cart_db 1) = Some 2"
proof -
  let ?c = "\<lparr>c_items = [\<lparr>ci_product = 1, ci_quantity = 1, ci_price = 100\<rparr>,
                        \<lparr>ci_product = 2, ci_quantity = 3, ci_price = 20\<rparr>],
             c_totalAmount = 160\<rparr>"
  have h1: "carts ex_cart_db (ru_id ex_customer) = Some ?c"
    by (simp add: ex_cart_db_def ex_customer_def)
  have h2: "\<exists>l \<in> set (c_items ?c). \<exists>p. products ex_cart_db (ci_product l) = Some p \<and>
             ci_quantity l > stock p - reservedStock p"
    by (simp add: ex_cart_db_def)
  have h3: "\<forall>l \<in> set (c_items ?c). products ex_cart_db (ci_product l) \<noteq> None"
    by (simp add: ex_cart_db_def)
  note inst = post_orders_all_or_nothing [OF h1 h2, of ex_env "Some ex_address"]
  have a: "snd (post_orders ex_env ex_customer (Some ex_address) ex_cart_db) = ex_cart_db"
    using inst by blast
  have b: "code (fst (post_orders ex_env ex_customer (Some ex_address) ex_cart_db)) = 400"
    using inst h3 by blast
  have c: "map_option reservedStock (products ex_cart_db 1) = Some 2"
    by (simp add: ex_cart_db_def ex_product_def)
  show ?thesis
    using h1 a b c by blast
qed

section \<open>C3: verifying a payment twice\<close>

text \<open>
  C3 states that committing reserved stock is idempotent per order.  The verify handler
  has no guard on \<open>payment.status\<close>: at the sample store (stock 5, two units reserved
  by the order) a first verify leaves stock 3 and \<open>reservedStock\<close> 0 and marks the
  payment completed; the same request again is answered 200 and leaves stock 1 and
  \<open>reservedStock\<close> -2.
\<close>

theorem verify_twice_commits_twice:
  "map_option (\<lambda>p. (stock p, reservedStock p)) (products ex_db 1) = Some (5, 2) \<and>
   code (fst (post_payments_verify ex_env ex_customer ex_verify_req ex_db)) = 200 \<and>
   map_option (\<lambda>p. (stock p, reservedStock p)) (products ex_db_verified 1) = Some (3, 0) \<and>
   map_option (\<lambda>x. pay_status (o_payment x)) (findById 7 (orders ex_db_verified))
     = Some Payment_completed \<and>
   code (fst (post_payments_verify ex_env ex_customer ex_verify_req ex_db_verified)) = 200 \<and>
   map_option (\<lambda>p. (stock p, reservedStock p)) (products ex_db_verified_twice 1) = Some (1, - 2)"
proof -
  have a0: "products ex_db 1 = Some ex_product"
    by (simp add: ex_db_def)
  have f0: "findById (v_orderId ex_verify_req) (orders ex_db) = Some ex_order"
    by (simp add: ex_verify_signed findById_def ex_db_def ex_order_def)
  have items: "o_items ex_order = [\<lparr>i_product = 1, i_name = ''bike'', i_quantity = 2, i_price = 100\<rparr>]"
    by (simp add: ex_order_def)
  note once = post_payments_verify_run [OF ex_verify_signed(1) f0 ex_verify_signed(2),
      of ex_customer, folded ex_db_verified_def]
  have a1: "products ex_db_verified 1 = Some (ex_product\<lparr>stock := 3, reservedStock := 0\<rparr>)"
    using a0 by (simp add: once(2) commit_stock_lookup items qty_for_def ex_product_def)
  from once(3) obtain ord1 where
    ord1: "findById 7 (orders ex_db_verified) = Some ord1"
      "pay_status (o_payment ord1) = Payment_completed" "o_items ord1 = o_items ex_order"
    by (auto simp: ex_verify_signed)
  have f1: "findById (v_orderId ex_verify_req) (orders ex_db_verified) = Some ord1"
    using ord1(1) by (simp add: ex_verify_signed)
  note twice = post_payments_verify_run [OF ex_verify_signed(1) f1 ex_verify_signed(2),
      of ex_customer, folded ex_db_verified_twice_def]
  have a2: "products ex_db_verified_twice 1 =
      Some (ex_product\<lparr>stock := 1, reservedStock := - 2\<rparr>)"
    using a1 by (simp add: twice(2) commit_stock_lookup ord1(3) items qty_for_def)
  show ?thesis
    using a0 a1 a2
    by (simp add: ord1 once(1) twice(1) respond_def ex_product_def)
qed

section \<open>C4: cancelling an order\<close>

text \<open>
  C4.  \<open>POST /api/orders/:id/cancel\<close>, called for an existing order by its owner or an
  admin: when the status is shipped, delivered, completed or cancelled the answer is 400
  and the store is unchanged; when it is created, paid or packed the answer is 200, every
  product's \<open>reservedStock\<close> has gone down by the quantities of the order's lines that
  name it, the order's status is \<open>cancelled\<close>, \<open>cancellationReason\<close> is the given
  reason and one entry has been appended to the status history.  So the request succeeds
  exactly for the three cancellable statuses.
\<close>

theorem post_order_cancel_correct:
  assumes "findById oid (orders s) = Some ord"
      and "ru_role u = Admin \<or> o_user ord = ru_id u"
  shows "(o_status ord \<in> {Shipped, Delivered, Completed, Cancelled} \<longrightarrow>
            post_order_cancel e u oid reason s =
              (respond 400 False
                 (''Cannot cancel order in '' @ order_status_name (o_status ord) @ '' status''), s))
       \<and> (o_status ord \<in> {Created, Paid, Packed} \<longrightarrow>
            (let s' = snd (post_order_cancel e u oid reason s) in
               fst (post_order_cancel e u oid reason s) = respond 200 True [] \<and>
               (\<forall>pid. products s' pid =
                   map_option (\<lambda>p. p\<lparr>reservedStock := reservedStock p - qty_for pid (o_items ord)\<rparr>)
                     (products s pid)) \<and>
               (\<exists>ord'. findById oid (orders s') = Some ord' \<and>
                  o_status ord' = Cancelled \<and>
                  cancellationReason ord' = reason \<and>
                  o_statusHistory ord' = o_statusHistory ord @
                    [\<lparr>oh_status = ''cancelled'', oh_timestamp = now e,
                      oh_note = Some (or_default reason ''Order cancelled''),
                      oh_updatedBy = Some (ru_id u)\<rparr>] \<and>
                  o_items ord' = o_items ord)))
       \<and> (code (fst (post_order_cancel e u oid reason s)) = 200
            \<longleftrightarrow> o_status ord \<in> {Created, Paid, Packed})"
proof -
  have id: "o_id ord = oid"
    using assms(1) findById_Some by blast
  have auth: "\<not> (ru_role u \<noteq> Admin \<and> o_user ord \<noteq> ru_id u)"
    using assms(2) by blast
  define ord1 where "ord1 = ord\<lparr>o_status := Cancelled, cancellationReason := reason,
      o_statusHistory := o_statusHistory ord @
        [\<lparr>oh_status = ''cancelled'', oh_timestamp = now e,
          oh_note = Some (or_default reason ''Order cancelled''),
          oh_updatedBy = Some (ru_id u)\<rparr>]\<rparr>"
  have id1: "o_id ord1 = oid"
    by (simp add: ord1_def id)
  have look: "findById oid (order_save e ord1 (orders s)) =
      Some (pre_save e (length (orders s)) ord1)"
    using findById_order_save [OF assms(1) id1] by simp
  show ?thesis
  proof (cases "o_status ord \<in> set nonCancellable")
    case True
    then have run: "post_order_cancel e u oid reason s =
        (respond 400 False
           (''Cannot cancel order in '' @ order_status_name (o_status ord) @ '' status''), s)"
      using assms by (auto simp add: post_order_cancel_def)
    from True have st: "o_status ord \<in> {Shipped, Delivered, Completed, Cancelled}"
        "o_status ord \<notin> {Created, Paid, Packed}"
      by (auto simp: nonCancellable_def)
    show ?thesis
      unfolding run using st by (simp add: respond_def)
  next
    case False
    then have run: "post_order_cancel e u oid reason s =
        (respond 200 True [],
         s\<lparr>products := release_stock (o_items ord) (products s),
           orders := order_save e ord1 (orders s)\<rparr>)"
      using assms by (auto simp add: post_order_cancel_def ord1_def Let_def)
    from False have st: "o_status ord \<notin> {Shipped, Delivered, Completed, Cancelled}"
        "o_status ord \<in> {Created, Paid, Packed}"
      by (cases "o_status ord"; simp add: nonCancellable_def)+
    show ?thesis
      unfolding run Let_def using st
      by (simp add: look release_stock_lookup respond_def) (simp add: ord1_def)
  qed
qed

text \<open>The sample order (status created, two units of product 1, of which two are
  reserved) is cancelled by its owner with reason "changed mind".\<close>

theorem post_order_cancel_correct_witness:
  "findById 7 (orders ex_db) = Some ex_order \<and>
   (ru_role ex_customer = Admin \<or> o_user ex_order = ru_id ex_customer) \<and>
   o_status ex_order \<in> {Created, Paid, Packed} \<and>
   map_option reservedStock
     (products (snd (post_order_cancel ex_env ex_customer 7 (Some ''changed mind'') ex_db)) 1)
     = Some 0 \<and>
   code (fst (post_order_cancel ex_env ex_customer 7 (Some ''changed mind'') ex_db)) = 200"
proof -
  have h1: "findById 7 (orders ex_db) = Some ex_order"
    by (simp add: findById_def ex_db_def ex_order_def)
  have h2: "ru_role ex_customer = Admin \<or> o_user ex_order = ru_id ex_customer"
    by (simp add: ex_customer_def ex_order_def)
  have h3: "o_status ex_order \<in> {Created, Paid, Packed}"
    by (simp add: ex_order_def)
  note inst = post_order_cancel_correct [OF h1 h2, of ex_env "Some ''changed mind''"]
  from inst [THEN conjunct2, THEN conjunct1, THEN mp, OF h3] have
    "products (snd (post_order_cancel ex_env ex_customer 7 (Some ''changed mind'') ex_db)) 1 =
       map_option (\<lambda>p. p\<lparr>reservedStock := reservedStock p - qty_for 1 (o_items ex_order)\<rparr>)
         (products ex_db 1)"
    by (simp add: Let_def)
  moreover from inst [THEN conjunct2, THEN conjunct2] h3 have
    "code (fst (post_order_cancel ex_env ex_customer 7 (Some ''changed mind'') ex_db)) = 200"
    by blast
  ultimately show ?thesis
    using h1 h2 h3 by (simp add: ex_db_def ex_product_def ex_order_def qty_for_def)
qed

section \<open>C5: a delivery status update projects onto the order\<close>

text \<open>
  C5.  \<open>PUT /api/delivery/:id/status\<close>, for an existing delivery whose parent order
  exists, called by an admin or the assigned partner: status \<open>picked\<close> sets the order
  to packed, \<open>in_transit\<close> and \<open>out_for_delivery\<close> set it to shipped, \<open>delivered\<close>
  sets it to delivered and stamps the delivery's \<open>actualDeliveryDate\<close>; in each case
  the delivery takes the new status and one entry is appended to the status history of
  the delivery and one to that of the order.
\<close>

theorem put_delivery_status_projects:
  assumes "deliveries s did = Some d"
      and "findById (d_order d) (orders s) = Some ord"
      and "ru_role u \<noteq> Delivery_partner \<or> d_partner d = ru_id u"
      and "(status_str, st, ost) \<in>
             {(''picked'', Picked, Packed), (''in_transit'', In_transit, Shipped),
              (''out_for_delivery'', Out_for_delivery, Shipped),
              (''delivered'', D_delivered, Delivered)}"
  shows "let s' = snd (put_delivery_status e u did status_str note location s) in
     fst (put_delivery_status e u did status_str note location s) = respond 200 True [] \<and>
     (\<exists>ord' d'. findById (d_order d) (orders s') = Some ord' \<and>
        deliveries s' did = Some d' \<and>
        o_status ord' = ost \<and> d_status d' = st \<and>
        o_statusHistory ord' = o_statusHistory ord @
          [\<lparr>oh_status = order_status_name ost, oh_timestamp = now e,
            oh_note = Some (''Delivery status: '' @ status_str),
            oh_updatedBy = Some (ru_id u)\<rparr>] \<and>
        d_statusHistory d' = d_statusHistory d @
          [\<lparr>dh_status = status_str, dh_timestamp = now e, dh_location = location,
            dh_note = note\<rparr>] \<and>
        actualDeliveryDate d' =
          (if status_str = ''delivered'' then Some (now e) else actualDeliveryDate d))"
proof -
  have auth: "\<not> (ru_role u = Delivery_partner \<and> d_partner d \<noteq> ru_id u)"
    using assms(3) by blast
  have parse: "map_of validDeliveryStatuses status_str = Some st"
    using assms(4) by (auto simp: validDeliveryStatuses_def)
  have proj: "(if st = Picked then Packed
               else if st = In_transit \<or> st = Out_for_delivery then Shipped
               else if st = D_delivered then Delivered else o_status ord) = ost"
    using assms(4) by auto
  have deliv: "st = D_delivered \<longleftrightarrow> status_str = ''delivered''"
    using assms(4) by auto
  define ord1 where "ord1 = ord\<lparr>o_status := ost,
      o_statusHistory := o_statusHistory ord @
        [\<lparr>oh_status = order_status_name ost, oh_timestamp = now e,
          oh_note = Some (''Delivery status: '' @ status_str),
          oh_updatedBy = Some (ru_id u)\<rparr>]\<rparr>"
  define d1 where "d1 = d\<lparr>d_status := st,
      d_statusHistory := d_statusHistory d @
        [\<lparr>dh_status = status_str, dh_timestamp = now e, dh_location = location,
          dh_note = note\<rparr>]\<rparr>"
  define d2 where "d2 = (if st = D_delivered then d1\<lparr>actualDeliveryDate := Some (now e)\<rparr> else d1)"
  have run: "put_delivery_status e u did status_str note location s =
      (respond 200 True [],
       s\<lparr>orders := order_save e ord1 (orders s), deliveries := (deliveries s)(did \<mapsto> d2)\<rparr>)"
    using assms(1,2) auth parse
    by (auto simp add: put_delivery_status_def Let_def proj ord1_def d1_def d2_def)
  have id1: "o_id ord1 = d_order d"
    using assms(2) findById_Some by (simp add: ord1_def)
  have look: "findById (d_order d) (order_save e ord1 (orders s)) =
      Some (pre_save e (length (orders s)) ord1)"
    using findById_order_save [OF assms(2) id1] by simp
  show ?thesis
    unfolding run Let_def
    by (simp add: look) (simp add: ord1_def d1_def d2_def deliv)
qed

text \<open>The assigned partner reports the sample delivery as delivered.\<close>

theorem put_delivery_status_projects_witness:
  "deliveries ex_db 9 = Some ex_delivery \<and>
   findById (d_order ex_delivery) (orders ex_db) = Some ex_order \<and>
   d_partner ex_delivery = ru_id ex_partner \<and>
   map_option o_status
     (findById 7 (orders (snd (put_delivery_status ex_env ex_partner 9 ''delivered'' None None
        ex_db)))) = Some Delivered \<and>
   map_option actualDeliveryDate
     (deliveries (snd (put_delivery_status ex_env ex_partner 9 ''delivered'' None None ex_db)) 9)
     = Some (Some 1700000000000)"
proof -
  have h1: "deliveries ex_db 9 = Some ex_delivery"
    by (simp add: ex_db_def)
  have h2: "findById (d_order ex_delivery) (orders ex_db) = Some ex_order"
    by (simp add: findById_def ex_db_def ex_order_def ex_delivery_def)
  have h3: "ru_role ex_partner \<noteq> Delivery_partner \<or> d_partner ex_delivery = ru_id ex_partner"
    by (simp add: ex_partner_def ex_delivery_def)
  have h4: "(''delivered'', D_delivered, Delivered) \<in>
             {(''picked'', Picked, Packed), (''in_transit'', In_transit, Shipped),
              (''out_for_delivery'', Out_for_delivery, Shipped),
              (''delivered'', D_delivered, Delivered)}"
    by simp
  have d7: "d_order ex_delivery = 7" "now ex_env = 1700000000000"
    by (simp_all add: ex_delivery_def ex_env_def)
  from put_delivery_status_projects [OF h1 h2 h3 h4, of ex_env None None]
  obtain ord' d' where
    "findById 7 (orders (snd (put_delivery_status ex_env ex_partner 9 ''delivered'' None None
        ex_db))) = Some ord'"
    "deliveries (snd (put_delivery_status ex_env ex_partner 9 ''delivered'' None None ex_db)) 9
       = Some d'"
    "o_status ord' = Delivered" "actualDeliveryDate d' = Some 1700000000000"
    unfolding Let_def d7 by auto
  then show ?thesis
    using h1 h2 h3 by (simp add: ex_partner_def ex_delivery_def)
qed

section \<open>C6: confirming a delivery completes the order\<close>

text \<open>
  C6.  \<open>POST /api/delivery/:id/confirm\<close>, for an existing delivery, called by an admin
  or the assigned partner: the delivery's status becomes delivered,
  \<open>actualDeliveryDate\<close> is stamped, the signature and the proof image are stored and a
  history entry is appended; when the parent order exists its status becomes completed
  directly (a single history entry \<open>completed\<close>, none for \<open>delivered\<close>) and
  \<open>order.delivery.actualDate\<close> is stamped; when it does not exist no order changes.
\<close>

theorem post_delivery_confirm_correct:
  assumes "deliveries s did = Some d"
      and "ru_role u \<noteq> Delivery_partner \<or> d_partner d = ru_id u"
  shows "let s' = snd (post_delivery_confirm e u did signature proofImage note s) in
     code (fst (post_delivery_confirm e u did signature proofImage note s)) = 200 \<and>
     (\<exists>d'. deliveries s' did = Some d' \<and>
        d_status d' = D_delivered \<and>
        actualDeliveryDate d' = Some (now e) \<and>
        customerSignature d' = signature \<and>
        proofOfDelivery d' = proofImage \<and>
        d_statusHistory d' = d_statusHistory d @
          [\<lparr>dh_status = ''delivered'', dh_timestamp = now e, dh_location = None,
            dh_note = Some (or_default note ''Delivery confirmed'')\<rparr>]) \<and>
     (\<forall>ord. findById (d_order d) (orders s) = Some ord \<longrightarrow>
        (\<exists>ord'. findById (d_order d) (orders s') = Some ord' \<and>
           o_status ord' = Completed \<and>
           od_actualDate (o_delivery ord') = Some (now e) \<and>
           o_statusHistory ord' = o_statusHistory ord @
             [\<lparr>oh_status = ''completed'', oh_timestamp = now e,
               oh_note = Some ''Order delivered and confirmed'',
               oh_updatedBy = Some (ru_id u)\<rparr>])) \<and>
     (findById (d_order d) (orders s) = None \<longrightarrow> orders s' = orders s)"
proof -
  have auth: "\<not> (ru_role u = Delivery_partner \<and> d_partner d \<noteq> ru_id u)"
    using assms(2) by blast
  show ?thesis
  proof (cases "findById (d_order d) (orders s)")
    case None
    then show ?thesis
      using assms by (auto simp add: post_delivery_confirm_def Let_def respond_def)
  next
    case (Some ord)
    define ord1 where "ord1 = ord\<lparr>o_status := Completed,
        o_delivery := (o_delivery ord)\<lparr>od_actualDate := Some (now e)\<rparr>,
        o_statusHistory := o_statusHistory ord @
          [\<lparr>oh_status = ''completed'', oh_timestamp = now e,
            oh_note = Some ''Order delivered and confirmed'',
            oh_updatedBy = Some (ru_id u)\<rparr>]\<rparr>"
    have id1: "o_id ord1 = d_order d"
      using Some findById_Some by (simp add: ord1_def)
    have look: "findById (d_order d) (order_save e ord1 (orders s)) =
        Some (pre_save e (length (orders s)) ord1)"
      using findById_order_save [OF Some id1] by simp
    have run: "snd (post_delivery_confirm e u did signature proofImage note s) =
        s\<lparr>deliveries := (deliveries s)(did \<mapsto>
            d\<lparr>d_status := D_delivered, actualDeliveryDate := Some (now e),
              customerSignature := signature, proofOfDelivery := proofImage,
              d_statusHistory := d_statusHistory d @
                [\<lparr>dh_status = ''delivered'', dh_timestamp = now e, dh_location = None,
                  dh_note = Some (or_default note ''Delivery confirmed'')\<rparr>]\<rparr>),
          orders := order_save e ord1 (orders s)\<rparr>"
        "code (fst (post_delivery_confirm e u did signature proofImage note s)) = 200"
      using assms Some
      by (auto simp add: post_delivery_confirm_def Let_def ord1_def respond_def)
    show ?thesis
      unfolding Let_def run
      using Some by (simp add: look) (simp add: ord1_def)
  qed
qed

text \<open>The assigned partner confirms the sample delivery; the sample order, still in
  status created, becomes completed.\<close>

theorem post_delivery_confirm_correct_witness:
  "deliveries ex_db 9 = Some ex_delivery \<and>
   d_partner ex_delivery = ru_id ex_partner \<and>
   findById (d_order ex_delivery) (orders ex_db) = Some ex_order \<and>
   map_option o_status
     (findById 7 (orders (snd (post_delivery_confirm ex_env ex_partner 9 (Some ''sig'')
        (Some ''proof.jpg'') None ex_db)))) = Some Completed"
proof -
  have h1: "deliveries ex_db 9 = Some ex_delivery"
    by (simp add: ex_db_def)
  have h2: "ru_role ex_partner \<noteq> Delivery_partner \<or> d_partner ex_delivery = ru_id ex_partner"
    by (simp add: ex_partner_def ex_delivery_def)
  have h3: "findById (d_order ex_delivery) (orders ex_db) = Some ex_order"
    by (simp add: findById_def ex_db_def ex_order_def ex_delivery_def)
  have d7: "d_order ex_delivery = 7"
    by (simp add: ex_delivery_def)
  from post_delivery_confirm_correct [OF h1 h2, of ex_env "Some ''sig''" "Some ''proof.jpg''" None]
    h3
  obtain ord' where
    "findById 7 (orders (snd (post_delivery_confirm ex_env ex_partner 9 (Some ''sig'')
        (Some ''proof.jpg'') None ex_db))) = Some ord'"
    "o_status ord' = Completed"
    unfolding Let_def d7 by auto
  then show ?thesis
    using h1 h2 h3 by (simp add: ex_partner_def ex_delivery_def)
qed

section \<open>C7: order numbers\<close>

text \<open>
  C7 states that the sequence part of an order number has four digits.  The hook pads
  the count to at least four characters and does not cut it: with 9999 orders stored the
  next order gets the five-digit sequence 10000.
\<close>

theorem order_number_five_digit_sequence:
  "orderNumber (pre_save ex_env 9999 (ex_order\<lparr>orderNumber := None\<rparr>)) =
     Some ''SON-1700000000000-10000'' \<and>
   padStart 4 CHR ''0'' (string_of_nat (9999 + 1)) = ''10000'' \<and>
   length (padStart 4 CHR ''0'' (string_of_nat (9999 + 1))) = 5"
proof -
  have "now ex_env = 1700000000000"
    by (simp add: ex_env_def)
  then have a: "orderNumber (pre_save ex_env 9999 (ex_order\<lparr>orderNumber := None\<rparr>)) =
     Some ''SON-1700000000000-10000''"
    by (simp add: pre_save_def truthy_def ex_gen_orderNumber)
  have b: "padStart 4 CHR ''0'' (string_of_nat (9999 + 1)) = ''10000''"
    by (simp add: string_of_nat.simps padStart_def digit_char_def)
  show ?thesis
    using a b by simp
qed

text \<open>
  C7, amended.  Every order's number is unique: the order collection keeps no two
  orders with the same number (an insert that would bring a stored number again is
  refused), every stored order has a number, and each handler that writes orders keeps
  it so.  The number has the format \<open>SON-<epochMillis>-<sequence>\<close>: both parts are
  decimal digits and the sequence is the number of stored orders plus one, left-padded
  with zeros to at least four characters, so exactly four while fewer than 9999 orders
  are stored.  The pre-save hook assigns it exactly when the order has none, which is at
  creation, and an order that has a number keeps it in every later save.
\<close>

theorem order_number_assigned_once:
  "(\<not> truthy (orderNumber ord) \<longrightarrow>
      orderNumber (pre_save e count ord) =
        Some (''SON-'' @ string_of_nat (now e) @ ''-'' @
              padStart 4 CHR ''0'' (string_of_nat (count + 1)))) \<and>
   set (string_of_nat (now e)) \<subseteq> set ''0123456789'' \<and>
   set (padStart 4 CHR ''0'' (string_of_nat (count + 1))) \<subseteq> set ''0123456789'' \<and>
   nat_of_string (padStart 4 CHR ''0'' (string_of_nat (count + 1))) = count + 1 \<and>
   4 \<le> length (padStart 4 CHR ''0'' (string_of_nat (count + 1))) \<and>
   (length (padStart 4 CHR ''0'' (string_of_nat (count + 1))) = 4 \<longleftrightarrow> count + 1 < 10000) \<and>
   (truthy (orderNumber saved) \<longrightarrow> pre_save e count saved = saved) \<and>
   truthy (orderNumber (pre_save e count ord)) \<and>
   pre_save e' count' (pre_save e count ord) = pre_save e count ord \<and>
   (orders_indexed os \<longrightarrow> distinct (map orderNumber os)) \<and>
   (Order_create e ord os = Inr os' \<longrightarrow>
      os' = os @ [pre_save e (length os) ord] \<and>
      orderNumber (pre_save e (length os) ord) \<notin> set (map orderNumber os)) \<and>
   (orders_indexed (orders s) \<longrightarrow>
      orders_indexed (orders (snd (post_orders e u addr s))) \<and>
      orders_indexed (orders (snd (put_order_status e u oid status_str note s))) \<and>
      orders_indexed (orders (snd (post_order_cancel e u oid reason s))) \<and>
      orders_indexed (orders (snd (post_payments_verify e u v s))) \<and>
      orders_indexed (orders (snd (post_payments_webhook e r s))) \<and>
      orders_indexed (orders (snd (put_delivery_status e u did dstatus dnote location s))) \<and>
      orders_indexed (orders (snd (post_delivery_confirm e u did signature proofImage
        cnote s))))"
proof -
  have assigned: "\<not> truthy (orderNumber ord) \<longrightarrow>
      orderNumber (pre_save e count ord) =
        Some (''SON-'' @ string_of_nat (now e) @ ''-'' @
              padStart 4 CHR ''0'' (string_of_nat (count + 1)))"
    by (simp add: pre_save_def gen_orderNumber_def)
  have again: "pre_save e' count' (pre_save e count ord) = pre_save e count ord"
    by (rule pre_save_id) (rule pre_save_truthy)
  have keep: "truthy (orderNumber saved) \<longrightarrow> pre_save e count saved = saved"
    using pre_save_id by blast
  have dist: "orders_indexed os \<longrightarrow> distinct (map orderNumber os)"
    by (simp add: orders_indexed_def)
  have create: "Order_create e ord os = Inr os' \<longrightarrow>
      os' = os @ [pre_save e (length os) ord] \<and>
      orderNumber (pre_save e (length os) ord) \<notin> set (map orderNumber os)"
    by (auto simp: Order_create_def Let_def split: if_splits)
  have handlers: "orders_indexed (orders s) \<longrightarrow>
      orders_indexed (orders (snd (post_orders e u addr s))) \<and>
      orders_indexed (orders (snd (put_order_status e u oid status_str note s))) \<and>
      orders_indexed (orders (snd (post_order_cancel e u oid reason s))) \<and>
      orders_indexed (orders (snd (post_payments_verify e u v s))) \<and>
      orders_indexed (orders (snd (post_payments_webhook e r s))) \<and>
      orders_indexed (orders (snd (put_delivery_status e u did dstatus dnote location s))) \<and>
      orders_indexed (orders (snd (post_delivery_confirm e u did signature proofImage
        cnote s)))"
    by (intro impI conjI indexed_post_orders indexed_put_order_status
        indexed_post_order_cancel indexed_post_payments_verify indexed_post_payments_webhook
        indexed_put_delivery_status indexed_post_delivery_confirm)
  show ?thesis
    by (intro conjI assigned again string_of_nat_digits padStart_digits nat_of_padStart
        length_padStart4 keep pre_save_truthy dist create handlers)
qed

text \<open>
  The first order of an empty shop gets the sequence 0001 and the sample order keeps its
  number when saved again.  Two customers check out one after the other and get the
  numbers 0001 and 0002.  Where an imported order already carries the number that the
  hook generates next, the checkout is refused with a 500 after it has reserved its two
  units, and the collection keeps its one order.
\<close>

theorem order_number_assigned_once_witness:
  "orderNumber (pre_save ex_env 0 (ex_order\<lparr>orderNumber := None\<rparr>)) =
     Some ''SON-1700000000000-0001'' \<and>
   pre_save ex_env 0 ex_order = ex_order \<and>
   map orderNumber (orders ex_shop_two_ordered) =
     [Some ''SON-1700000000000-0001'', Some ''SON-1700000000050-0002''] \<and>
   distinct (map orderNumber (orders ex_shop_two_ordered)) \<and>
   distinct (map orderNumber (orders (snd (post_order_cancel ex_env ex_customer 7 None
     ex_shop_two_ordered)))) \<and>
   orderNumber (pre_save ex_env (length [ex_order]) (ex_order\<lparr>o_id := 8, orderNumber := None\<rparr>))
     \<notin> set (map orderNumber [ex_order]) \<and>
   code (fst (post_orders ex_env ex_customer (Some ex_address) ex_shop_imported)) = 500 \<and>
   map orderNumber (orders (snd (post_orders ex_env ex_customer (Some ex_address)
     ex_shop_imported))) = [Some ''SON-1700000000000-0002'']"
proof -
  let ?s1 = "snd (post_orders ex_env ex_customer (Some ex_address) ex_shop_two)"
  have h1: "\<not> truthy (orderNumber (ex_order\<lparr>orderNumber := None\<rparr>))"
    by (simp add: truthy_def)
  have h2: "truthy (orderNumber ex_order)"
    by (simp add: truthy_def ex_order_def)
  have h3: "orders_indexed (orders ex_shop_two)"
    by (simp add: orders_indexed_def ex_shop_two_def ex_shop_def)
  have now: "now ex_env = 1700000000000"
    by (simp add: ex_env_def)
  note inst = order_number_assigned_once [where ord = "ex_order\<lparr>orderNumber := None\<rparr>"
      and e = ex_env and count = 0 and saved = ex_order]
  have a: "orderNumber (pre_save ex_env 0 (ex_order\<lparr>orderNumber := None\<rparr>)) =
     Some ''SON-1700000000000-0001''"
    using inst h1 ex_gen_orderNumber(1) by (simp add: gen_orderNumber_def now)
  have b: "pre_save ex_env 0 ex_order = ex_order"
    using inst h2 by blast
  have i1: "orders_indexed (orders ?s1)"
    using order_number_assigned_once [where s = ex_shop_two and e = ex_env
        and u = ex_customer and addr = "Some ex_address", THEN conjunct2, THEN conjunct2,
        THEN conjunct2, THEN conjunct2, THEN conjunct2, THEN conjunct2, THEN conjunct2,
        THEN conjunct2, THEN conjunct2, THEN conjunct2, THEN conjunct2, THEN mp, OF h3]
    by (rule conjunct1)
  have i2: "orders_indexed (orders ex_shop_two_ordered)"
    unfolding ex_shop_two_ordered_def
    using order_number_assigned_once [where s = ?s1 and e = ex_env_later
        and u = ex_second_customer and addr = "Some ex_address", THEN conjunct2,
        THEN conjunct2, THEN conjunct2, THEN conjunct2, THEN conjunct2, THEN conjunct2,
        THEN conjunct2, THEN conjunct2, THEN conjunct2, THEN conjunct2, THEN conjunct2,
        THEN mp, OF i1]
    by (rule conjunct1)
  have c: "distinct (map orderNumber (orders ex_shop_two_ordered))"
    using order_number_assigned_once [where os = "orders ex_shop_two_ordered",
        THEN conjunct2, THEN conjunct2, THEN conjunct2, THEN conjunct2, THEN conjunct2,
        THEN conjunct2, THEN conjunct2, THEN conjunct2, THEN conjunct2, THEN conjunct1,
        THEN mp, OF i2] .
  have i3: "orders_indexed (orders (snd (post_order_cancel ex_env ex_customer 7 None
      ex_shop_two_ordered)))"
    using order_number_assigned_once [where s = ex_shop_two_ordered and e = ex_env
        and u = ex_customer and oid = 7 and reason = None, THEN conjunct2, THEN conjunct2,
        THEN conjunct2, THEN conjunct2, THEN conjunct2, THEN conjunct2, THEN conjunct2,
        THEN conjunct2, THEN conjunct2, THEN conjunct2, THEN conjunct2, THEN mp, OF i2,
        THEN conjunct2, THEN conjunct2]
    by (rule conjunct1)
  have d: "distinct (map orderNumber (orders (snd (post_order_cancel ex_env ex_customer 7 None
      ex_shop_two_ordered))))"
    using order_number_assigned_once [where os = "orders (snd (post_order_cancel ex_env
        ex_customer 7 None ex_shop_two_ordered))",
        THEN conjunct2, THEN conjunct2, THEN conjunct2, THEN conjunct2, THEN conjunct2,
        THEN conjunct2, THEN conjunct2, THEN conjunct2, THEN conjunct2, THEN conjunct1,
        THEN mp, OF i3] .
  have h4: "Order_create ex_env (ex_order\<lparr>o_id := 8, orderNumber := None\<rparr>) [ex_order] =
      Inr [ex_order, ex_order\<lparr>o_id := 8, orderNumber := Some ''SON-1700000000000-0002''\<rparr>]"
    by (simp add: Order_create_def validate_order_def ex_order_def ex_address_def truthy_def
        Let_def pre_save_def now ex_gen_orderNumber_Suc)
  have f: "orderNumber (pre_save ex_env (length [ex_order])
      (ex_order\<lparr>o_id := 8, orderNumber := None\<rparr>)) \<notin> set (map orderNumber [ex_order])"
    using order_number_assigned_once [where e = ex_env
        and ord = "ex_order\<lparr>o_id := 8, orderNumber := None\<rparr>" and os = "[ex_order]"
        and os' = "[ex_order, ex_order\<lparr>o_id := 8,
          orderNumber := Some ''SON-1700000000000-0002''\<rparr>]",
        THEN conjunct2, THEN conjunct2, THEN conjunct2, THEN conjunct2, THEN conjunct2,
        THEN conjunct2, THEN conjunct2, THEN conjunct2, THEN conjunct2, THEN conjunct2,
        THEN conjunct1, THEN mp, OF h4]
    by (rule conjunct2)
  show ?thesis
    using a b c d f ex_shop_two_second ex_shop_imported_refused(1,2) by blast
qed

section \<open>C8: the rating summary after a review changes\<close>

text \<open>
  C8 states that after every create, update, delete or moderate of a review the stored
  average is the rounded mean of the approved ratings and the stored count is their
  number.  The update handler writes the average only.  In the seeded catalogue the
  author of the one review of product 1 raises the rating from 4 to 5: the answer is 200,
  the average becomes 5, and the count stays at the seeded 128 although one approved
  review exists.  Deleting the same review instead, from the same store, writes both
  fields (average 0, count 0).
\<close>

theorem review_update_leaves_count:
  "map_option (\<lambda>p. (ratings_average p, ratings_count p)) (products ex_review_db 1)
     = Some (Num (47 / 10), 128) \<and>
   code (fst (put_review ex_customer 20 (Some 5) None None ex_review_db)) = 200 \<and>
   map r_rating (approved_product_reviews (Some 1) (reviews ex_review_updated)) = [5] \<and>
   map_option (\<lambda>p. (ratings_average p, ratings_count p)) (products ex_review_updated 1)
     = Some (Num 5, 128) \<and>
   approved_product_reviews (Some 1) (reviews ex_review_deleted) = [] \<and>
   map_option (\<lambda>p. (ratings_average p, ratings_count p)) (products ex_review_deleted 1)
     = Some (Num 0, 0)"
proof -
  have a: "map_option (\<lambda>p. (ratings_average p, ratings_count p)) (products ex_review_db 1)
     = Some (Num (47 / 10), 128)"
    by (simp add: ex_review_db_def)
  have b: "code (fst (put_review ex_customer 20 (Some 5) None None ex_review_db)) = 200"
    by (simp add: put_review_def find_review_def ex_review_db_def ex_review_def
          ex_customer_def Let_def respond_def truthy_def or_default_def fl_5
          validate_review_def trim_ex approved_product_reviews_def mean_rating_def
          set_product_average_def round1_5 del: round1.simps)
  have c: "map r_rating (approved_product_reviews (Some 1) (reviews ex_review_updated)) = [5]"
    by (simp add: ex_update_reviews approved_product_reviews_def ex_review_def)
  have d: "map_option (\<lambda>p. (ratings_average p, ratings_count p)) (products ex_review_updated 1)
     = Some (Num 5, 128)"
    by (simp add: ex_review_updated_def put_review_def find_review_def ex_review_db_def
          ex_review_def ex_customer_def Let_def truthy_def or_default_def fl_5
          validate_review_def trim_ex approved_product_reviews_def mean_rating_def
          set_product_average_def round1_5 del: round1.simps)
  have e: "approved_product_reviews (Some 1) (reviews ex_review_deleted) = []"
    by (simp add: ex_review_deleted_def delete_review_def find_review_def ex_review_db_def
          ex_review_def ex_customer_def Let_def approved_product_reviews_def
          mean_rating_guarded_def set_product_ratings_def round1_0 del: round1.simps)
  have f: "map_option (\<lambda>p. (ratings_average p, ratings_count p)) (products ex_review_deleted 1)
     = Some (Num 0, 0)"
    by (simp add: ex_review_deleted_def delete_review_def find_review_def ex_review_db_def
          ex_review_def ex_customer_def Let_def approved_product_reviews_def
          mean_rating_guarded_def set_product_ratings_def round1_0 del: round1.simps)
  show ?thesis
    using a b c d e f by blast
qed

section \<open>C9: the admin status update touches the order alone\<close>

text \<open>
  C9.  \<open>PUT /api/orders/:id/status\<close>, for an existing order and any of the seven valid
  target statuses (\<open>cancelled\<close> included), answers 200 and changes nothing but the
  order: products (so every \<open>stock\<close> and \<open>reservedStock\<close>), carts, deliveries, reviews
  and users are as before, every other order is as before, and of the order itself only
  the status and the status history change (the order number too is kept whenever the
  order has one, which every saved order does).  No reservation is released on this
  route, whatever the target status.
\<close>

theorem put_order_status_frame:
  assumes "map_of validStatuses status_str = Some st"
      and "findById oid (orders s) = Some ord"
  shows "let s' = snd (put_order_status e u oid status_str note s) in
     code (fst (put_order_status e u oid status_str note s)) = 200 \<and>
     products s' = products s \<and> carts s' = carts s \<and> deliveries s' = deliveries s \<and>
     reviews s' = reviews s \<and> users s' = users s \<and>
     length (orders s') = length (orders s) \<and>
     (\<forall>j. j \<noteq> oid \<longrightarrow> findById j (orders s') = findById j (orders s)) \<and>
     (\<exists>ord'. findById oid (orders s') = Some ord' \<and>
        o_status ord' = st \<and>
        o_statusHistory ord' = o_statusHistory ord @
          [\<lparr>oh_status = status_str, oh_timestamp = now e, oh_note = note,
            oh_updatedBy = Some (ru_id u)\<rparr>] \<and>
        o_id ord' = o_id ord \<and> o_user ord' = o_user ord \<and> o_items ord' = o_items ord \<and>
        shippingAddress ord' = shippingAddress ord \<and> o_payment ord' = o_payment ord \<and>
        o_delivery ord' = o_delivery ord \<and> totalAmount ord' = totalAmount ord \<and>
        cancellationReason ord' = cancellationReason ord \<and>
        (truthy (orderNumber ord) \<longrightarrow> orderNumber ord' = orderNumber ord))"
proof -
  have id: "o_id ord = oid"
    using assms(2) findById_Some by blast
  define ord1 where "ord1 = ord\<lparr>o_status := st,
      o_statusHistory := o_statusHistory ord @
        [\<lparr>oh_status = status_str, oh_timestamp = now e, oh_note = note,
          oh_updatedBy = Some (ru_id u)\<rparr>]\<rparr>"
  have run: "put_order_status e u oid status_str note s =
      (respond 200 True [], s\<lparr>orders := order_save e ord1 (orders s)\<rparr>)"
    using assms by (simp add: put_order_status_def ord1_def Let_def)
  have id1: "o_id ord1 = oid"
    by (simp add: ord1_def id)
  have look: "\<And>j. findById j (order_save e ord1 (orders s)) =
      (if j = oid then Some (pre_save e (length (orders s)) ord1) else findById j (orders s))"
    using findById_order_save [OF assms(2) id1] by simp
  have len: "length (order_save e ord1 (orders s)) = length (orders s)"
    using length_order_save [OF assms(2) id1] .
  have num: "truthy (orderNumber ord) \<longrightarrow>
      orderNumber (pre_save e (length (orders s)) ord1) = orderNumber ord"
    by (simp add: pre_save_keeps_number ord1_def)
  show ?thesis
    unfolding Let_def run
    using num by (simp add: look len respond_def) (simp add: ord1_def id)
qed

text \<open>At the sample store the order holds two reserved units of product 1; the admin
  sets it to \<open>cancelled\<close> and the two units stay reserved.\<close>

theorem put_order_status_frame_witness:
  "map_of validStatuses ''cancelled'' = Some Cancelled \<and>
   findById 7 (orders ex_db) = Some ex_order \<and>
   products (snd (put_order_status ex_env ex_admin 7 ''cancelled'' None ex_db)) 1 =
     Some ex_product \<and>
   reservedStock ex_product = 2"
proof -
  have h1: "map_of validStatuses ''cancelled'' = Some Cancelled"
    by (simp add: validStatuses_def)
  have h2: "findById 7 (orders ex_db) = Some ex_order"
    by (simp add: findById_def ex_db_def ex_order_def)
  have "products (snd (put_order_status ex_env ex_admin 7 ''cancelled'' None ex_db)) =
      products ex_db"
    using put_order_status_frame [OF h1 h2, of ex_env ex_admin None] by (simp add: Let_def)
  then show ?thesis
    using h1 h2 by (simp add: ex_db_def ex_product_def)
qed

section \<open>C10: the webhook marks an order paid without committing stock\<close>

text \<open>
  C10.  \<open>POST /api/payments/webhook\<close> writes to the order collection only: after any
  webhook request the products (so every \<open>stock\<close> and \<open>reservedStock\<close>), carts,
  deliveries, reviews and users are the ones before, and no order is added or removed.
  For a correctly signed \<open>payment.captured\<close> event whose order is found and not yet
  marked completed, the answer is 200 and the store is the old one with that one order
  document replaced: its payment status, payment id, method and \<open>paidAt\<close> are set and
  its status is paid; every other field of it, the status history included, and every
  other order are as before.  When no order is found, or the payment is already
  completed, the store is unchanged, and a wrong signature is refused with 400 and an
  unchanged store.  \<open>POST /api/payments/verify\<close>, in contrast, lowers \<open>stock\<close> and
  \<open>reservedStock\<close> of every product by the quantities of the order's lines.
\<close>

theorem webhook_changes_order_only:
  "(let s' = snd (post_payments_webhook e r s) in
      products s' = products s \<and> carts s' = carts s \<and> deliveries s' = deliveries s \<and>
      reviews s' = reviews s \<and> users s' = users s \<and>
      length (orders s') = length (orders s)) \<and>
   (hmac_sha256_hex e (webhook_secret e) (body_json r) = x_razorpay_signature r \<and>
    event r = Ev_payment_captured k pid m \<and>
    findOne_razorpayOrderId k (orders s) = Some ord \<and>
    pay_status (o_payment ord) \<noteq> Payment_completed \<longrightarrow>
      (let paid = ord\<lparr>o_payment := (o_payment ord)\<lparr>pay_status := Payment_completed,
                    razorpayPaymentId := Some pid, pay_method := Some m,
                    paidAt := Some (now e)\<rparr>,
                  o_status := Paid\<rparr>;
           saved = pre_save e (length (orders s)) paid
       in post_payments_webhook e r s =
            (respond 200 True [],
             s\<lparr>orders := map (\<lambda>x. if o_id x = o_id ord then saved else x) (orders s)\<rparr>) \<and>
          (truthy (orderNumber ord) \<longrightarrow> saved = paid) \<and>
          findById (o_id ord) (orders (snd (post_payments_webhook e r s))) = Some saved \<and>
          (\<forall>j. j \<noteq> o_id ord \<longrightarrow>
             findById j (orders (snd (post_payments_webhook e r s))) = findById j (orders s)))) \<and>
   (hmac_sha256_hex e (webhook_secret e) (body_json r) = x_razorpay_signature r \<and>
    event r = Ev_payment_captured k pid m \<and>
    (findOne_razorpayOrderId k (orders s) = None \<or>
     map_option (\<lambda>x. pay_status (o_payment x)) (findOne_razorpayOrderId k (orders s))
       = Some Payment_completed) \<longrightarrow>
      post_payments_webhook e r s = (respond 200 True [], s)) \<and>
   (hmac_sha256_hex e (webhook_secret e) (body_json r) \<noteq> x_razorpay_signature r \<longrightarrow>
      post_payments_webhook e r s = (respond 400 False ''Invalid webhook signature'', s)) \<and>
   (hmac_sha256_hex e (key_secret e) (razorpay_order_id v @ ''|'' @ razorpay_payment_id v)
      = razorpay_signature v \<and>
    findById (v_orderId v) (orders s) = Some vord \<and>
    payments_fetch e (razorpay_payment_id v) = Some vm \<longrightarrow>
      (\<forall>i. products (snd (post_payments_verify e u v s)) i =
         map_option (\<lambda>p. p\<lparr>stock := stock p - qty_for i (o_items vord),
                           reservedStock := reservedStock p - qty_for i (o_items vord)\<rparr>)
           (products s i)))"
proof (intro conjI impI)
  show "let s' = snd (post_payments_webhook e r s) in
      products s' = products s \<and> carts s' = carts s \<and> deliveries s' = deliveries s \<and>
      reviews s' = reviews s \<and> users s' = users s \<and>
      length (orders s') = length (orders s)"
    by (simp add: post_payments_webhook_def Let_def order_save_def
          split: webhook_event.splits option.splits)
next
  assume h: "hmac_sha256_hex e (webhook_secret e) (body_json r) = x_razorpay_signature r \<and>
    event r = Ev_payment_captured k pid m \<and>
    findOne_razorpayOrderId k (orders s) = Some ord \<and>
    pay_status (o_payment ord) \<noteq> Payment_completed"
  define paid where "paid = ord\<lparr>o_payment := (o_payment ord)\<lparr>pay_status := Payment_completed,
      razorpayPaymentId := Some pid, pay_method := Some m, paidAt := Some (now e)\<rparr>,
      o_status := Paid\<rparr>"
  define saved where "saved = pre_save e (length (orders s)) paid"
  have run: "post_payments_webhook e r s =
      (respond 200 True [],
       s\<lparr>orders := map (\<lambda>x. if o_id x = o_id ord then saved else x) (orders s)\<rparr>)"
    using h by (simp add: post_payments_webhook_def Let_def paid_def saved_def order_save_def)
  have mem: "o_id ord \<in> o_id ` set (orders s)"
    using h findOne_rzp_mem [of k "orders s" ord] by simp
  have id: "o_id saved = o_id ord"
    by (simp add: saved_def paid_def)
  have keep: "truthy (orderNumber ord) \<longrightarrow> saved = paid"
    by (simp add: saved_def paid_def pre_save_id)
  have look: "findById j (map (\<lambda>x. if o_id x = o_id ord then saved else x) (orders s)) =
      (if j = o_id ord then Some saved else findById j (orders s))" for j
    using mem by (simp add: findById_replace [OF id])
  show "let paid = ord\<lparr>o_payment := (o_payment ord)\<lparr>pay_status := Payment_completed,
                    razorpayPaymentId := Some pid, pay_method := Some m,
                    paidAt := Some (now e)\<rparr>,
                  o_status := Paid\<rparr>;
           saved = pre_save e (length (orders s)) paid
       in post_payments_webhook e r s =
            (respond 200 True [],
             s\<lparr>orders := map (\<lambda>x. if o_id x = o_id ord then saved else x) (orders s)\<rparr>) \<and>
          (truthy (orderNumber ord) \<longrightarrow> saved = paid) \<and>
          findById (o_id ord) (orders (snd (post_payments_webhook e r s))) = Some saved \<and>
          (\<forall>j. j \<noteq> o_id ord \<longrightarrow>
             findById j (orders (snd (post_payments_webhook e r s))) = findById j (orders s))"
    unfolding Let_def paid_def [symmetric] saved_def [symmetric]
    using keep by (simp add: run look)
next
  assume "hmac_sha256_hex e (webhook_secret e) (body_json r) = x_razorpay_signature r \<and>
    event r = Ev_payment_captured k pid m \<and>
    (findOne_razorpayOrderId k (orders s) = None \<or>
     map_option (\<lambda>x. pay_status (o_payment x)) (findOne_razorpayOrderId k (orders s))
       = Some Payment_completed)"
  then show "post_payments_webhook e r s = (respond 200 True [], s)"
    by (auto simp add: post_payments_webhook_def Let_def)
next
  assume "hmac_sha256_hex e (webhook_secret e) (body_json r) \<noteq> x_razorpay_signature r"
  then show "post_payments_webhook e r s =
      (respond 400 False ''Invalid webhook signature'', s)"
    by (simp add: post_payments_webhook_def Let_def)
next
  assume h: "hmac_sha256_hex e (key_secret e) (razorpay_order_id v @ ''|'' @ razorpay_payment_id v)
      = razorpay_signature v \<and>
    findById (v_orderId v) (orders s) = Some vord \<and>
    payments_fetch e (razorpay_payment_id v) = Some vm"
  then have "products (snd (post_payments_verify e u v s)) =
      commit_stock (o_items vord) (products s)"
    by (simp add: post_payments_verify_def Let_def)
  then show "\<forall>i. products (snd (post_payments_verify e u v s)) i =
         map_option (\<lambda>p. p\<lparr>stock := stock p - qty_for i (o_items vord),
                           reservedStock := reservedStock p - qty_for i (o_items vord)\<rparr>)
           (products s i)"
    by (simp add: commit_stock_lookup)
qed

text \<open>The sample order (two reserved units of product 1, stock 5) is paid once through
  the webhook, which replaces the order document and nothing else, and once, from the
  same store, through verify.  A webhook with a wrong signature and one for an unknown
  gateway order leave the store as it is.\<close>

theorem webhook_changes_order_only_witness:
  "post_payments_webhook ex_env ex_webhook_req ex_db =
     (respond 200 True [],
      ex_db\<lparr>orders := [ex_order\<lparr>o_payment := (o_payment ex_order)\<lparr>
          pay_status := Payment_completed, razorpayPaymentId := Some ''pay_1'',
          pay_method := Some ''upi'', paidAt := Some 1700000000000\<rparr>,
        o_status := Paid\<rparr>]\<rparr>) \<and>
   products (snd (post_payments_webhook ex_env ex_webhook_req ex_db)) 1 = Some ex_product \<and>
   reservedStock ex_product = 2 \<and>
   post_payments_webhook ex_env (ex_webhook_req\<lparr>x_razorpay_signature := ''forged''\<rparr>) ex_db =
     (respond 400 False ''Invalid webhook signature'', ex_db) \<and>
   post_payments_webhook ex_env
       (ex_webhook_req\<lparr>event := Ev_payment_captured ''rzp_9'' ''pay_9'' ''card''\<rparr>) ex_db =
     (respond 200 True [], ex_db) \<and>
   products (snd (post_payments_verify ex_env ex_customer ex_verify_req ex_db)) 1 =
     Some (ex_product\<lparr>stock := 3, reservedStock := 0\<rparr>)"
proof -
  have h1: "hmac_sha256_hex ex_env (webhook_secret ex_env) (body_json ex_webhook_req)
      = x_razorpay_signature ex_webhook_req \<and>
    event ex_webhook_req = Ev_payment_captured ''rzp_1'' ''pay_1'' ''upi'' \<and>
    findOne_razorpayOrderId ''rzp_1'' (orders ex_db) = Some ex_order \<and>
    pay_status (o_payment ex_order) \<noteq> Payment_completed"
    by (simp add: ex_env_def ex_webhook_req_def findOne_razorpayOrderId_def ex_db_def
          ex_order_def)
  have h2: "hmac_sha256_hex ex_env (webhook_secret ex_env)
        (body_json (ex_webhook_req\<lparr>x_razorpay_signature := ''forged''\<rparr>))
      \<noteq> x_razorpay_signature (ex_webhook_req\<lparr>x_razorpay_signature := ''forged''\<rparr>)"
    by (simp add: ex_env_def ex_webhook_req_def)
  let ?unknown = "ex_webhook_req\<lparr>event := Ev_payment_captured ''rzp_9'' ''pay_9'' ''card''\<rparr>"
  have h3: "hmac_sha256_hex ex_env (webhook_secret ex_env) (body_json ?unknown)
      = x_razorpay_signature ?unknown \<and>
    event ?unknown = Ev_payment_captured ''rzp_9'' ''pay_9'' ''card'' \<and>
    (findOne_razorpayOrderId ''rzp_9'' (orders ex_db) = None \<or>
     map_option (\<lambda>x. pay_status (o_payment x)) (findOne_razorpayOrderId ''rzp_9'' (orders ex_db))
       = Some Payment_completed)"
    by (simp add: ex_env_def ex_webhook_req_def findOne_razorpayOrderId_def ex_db_def
          ex_order_def)
  have h4: "hmac_sha256_hex ex_env (key_secret ex_env)
      (razorpay_order_id ex_verify_req @ ''|'' @ razorpay_payment_id ex_verify_req)
      = razorpay_signature ex_verify_req \<and>
    findById (v_orderId ex_verify_req) (orders ex_db) = Some ex_order \<and>
    payments_fetch ex_env (razorpay_payment_id ex_verify_req) = Some ''upi''"
    by (simp add: ex_env_def ex_verify_req_def findById_def ex_db_def ex_order_def)
  have num: "truthy (orderNumber ex_order)"
    by (simp add: truthy_def ex_order_def)
  note captured = webhook_changes_order_only [where e = ex_env and r = ex_webhook_req
      and s = ex_db and k = "''rzp_1''" and pid = "''pay_1''" and m = "''upi''"
      and ord = ex_order, THEN conjunct2, THEN conjunct1, THEN mp, OF h1]
  have a: "post_payments_webhook ex_env ex_webhook_req ex_db =
     (respond 200 True [],
      ex_db\<lparr>orders := [ex_order\<lparr>o_payment := (o_payment ex_order)\<lparr>
          pay_status := Payment_completed, razorpayPaymentId := Some ''pay_1'',
          pay_method := Some ''upi'', paidAt := Some 1700000000000\<rparr>,
        o_status := Paid\<rparr>]\<rparr>)"
    using captured num by (simp add: Let_def) (simp add: ex_db_def ex_env_def)
  have b: "products (snd (post_payments_webhook ex_env ex_webhook_req ex_db)) 1 =
      Some ex_product"
    using webhook_changes_order_only [where e = ex_env and r = ex_webhook_req and s = ex_db,
        THEN conjunct1]
    by (simp add: Let_def ex_db_def)
  have c: "reservedStock ex_product = 2"
    by (simp add: ex_product_def)
  have d: "post_payments_webhook ex_env (ex_webhook_req\<lparr>x_razorpay_signature := ''forged''\<rparr>)
      ex_db = (respond 400 False ''Invalid webhook signature'', ex_db)"
    using webhook_changes_order_only [where e = ex_env and s = ex_db
        and r = "ex_webhook_req\<lparr>x_razorpay_signature := ''forged''\<rparr>",
        THEN conjunct2, THEN conjunct2, THEN conjunct2, THEN conjunct1, THEN mp, OF h2] .
  have f: "post_payments_webhook ex_env ?unknown ex_db = (respond 200 True [], ex_db)"
    using webhook_changes_order_only [where e = ex_env and s = ex_db and r = ?unknown
        and k = "''rzp_9''" and pid = "''pay_9''" and m = "''card''",
        THEN conjunct2, THEN conjunct2, THEN conjunct1, THEN mp, OF h3] .
  have "products (snd (post_payments_verify ex_env ex_customer ex_verify_req ex_db)) 1 =
      map_option (\<lambda>p. p\<lparr>stock := stock p - qty_for 1 (o_items ex_order),
                           reservedStock := reservedStock p - qty_for 1 (o_items ex_order)\<rparr>)
           (products ex_db 1)"
    using webhook_changes_order_only [where e = ex_env and s = ex_db and v = ex_verify_req
        and vord = ex_order and vm = "''upi''" and u = ex_customer,
        THEN conjunct2, THEN conjunct2, THEN conjunct2, THEN conjunct2, THEN mp, OF h4]
    by blast
  then have g: "products (snd (post_payments_verify ex_env ex_customer ex_verify_req ex_db)) 1
      = Some (ex_product\<lparr>stock := 3, reservedStock := 0\<rparr>)"
    by (simp add: ex_db_def ex_order_def qty_for_def ex_product_def)
  show ?thesis
    using a b c d f g by blast
qed

end
